theory Spec2Isabelle
  imports Main "HOL-Library.Char_ord" "HOL-Library.List_Lexorder"
begin

section \<open>Preliminaries: JavaScript values used by the controllers\<close>

text \<open>
  Identifiers (Mongo ObjectIds rendered by \<^verbatim>\<open>toString()\<close>, \<^verbatim>\<open>req.user.id\<close>, room ids,
  socket ids) are strings. A stored ObjectId is the string \<^verbatim>\<open>toString()\<close> gives: 24
  hexadecimal digits in lower case. \<^verbatim>\<open>req.user.id\<close> is such a rendering too, of the
  authenticated user's id. An id that arrives in a request body or a route parameter is any
  string; a query or a document field that takes it casts it first. Strings are compared as JavaScript compares them: code unit by
  code unit, a proper prefix being smaller; this is the lexicographic order on
  \<^typ>\<open>char list\<close>. Times are milliseconds since the epoch (\<^verbatim>\<open>new Date()\<close> is the
  argument \<open>now\<close> of every handler that reads the clock). A field that may be
  \<^verbatim>\<open>undefined\<close> is an \<open>option\<close>.

  A handler answers with \<^verbatim>\<open>res.status(c).json({ message })\<close> on an error path; that is
  the left summand \<open>(c, message)\<close>. The right summand is the payload of the successful
  answer. Every handler returns its answer together with the database it leaves behind.
\<close>

type_synonym http_error = "nat \<times> string"

text \<open>
  The cast of a string to an ObjectId: a string of 24 hexadecimal digits, in either case,
  is the id whose rendering is the string in lower case; on any other string the cast
  throws a \<^verbatim>\<open>CastError\<close> (\<open>None\<close>). (Some versions of the driver also take
  any string of 12 characters for the 12 bytes of an id; that is not modelled.)
\<close>

definition isHexDigit :: "char \<Rightarrow> bool" where
  "isHexDigit c = (c \<in> set ''0123456789abcdefABCDEF'')"

definition toLowerHex :: "char \<Rightarrow> char" where
  "toLowerHex c =
     (if c = CHR ''A'' then CHR ''a'' else if c = CHR ''B'' then CHR ''b''
      else if c = CHR ''C'' then CHR ''c'' else if c = CHR ''D'' then CHR ''d''
      else if c = CHR ''E'' then CHR ''e'' else if c = CHR ''F'' then CHR ''f'' else c)"

definition castObjectId :: "string \<Rightarrow> string option" where
  "castObjectId s =
     (if length s = 24 \<and> list_all isHexDigit s then Some (map toLowerHex s) else None)"

text \<open>
  A document field of type ObjectId that is assigned a string: the cast id, or, when the
  cast fails, no valid value (the empty string), which the validators reject at
  \<^verbatim>\<open>save()\<close>.
\<close>

definition asObjectId :: "string \<Rightarrow> string" where
  "asObjectId s = (case castObjectId s of None \<Rightarrow> [] | Some k \<Rightarrow> k)"

text \<open>An awaited query either throws (into the handler's \<^verbatim>\<open>catch\<close>) or returns.\<close>

datatype 'a outcome = Throws | Returns 'a

text \<open>\<^verbatim>\<open>!x\<close> for a request field that is a string or absent.\<close>

definition falsy :: "string option \<Rightarrow> bool" where
  "falsy x = (case x of None \<Rightarrow> True | Some s \<Rightarrow> s = [])"

text \<open>\<^verbatim>\<open>Array.prototype.join\<close> on an array of strings.\<close>

fun join :: "string \<Rightarrow> string list \<Rightarrow> string" where
  "join sep [] = []"
| "join sep [x] = x"
| "join sep (x # y # zs) = x @ sep @ join sep (y # zs)"

text \<open>
  \<^verbatim>\<open>Array.prototype.findIndex\<close>, and the position of the first document a \<^verbatim>\<open>findOne\<close>
  query matches. \<open>None\<close> is JavaScript's \<open>-1\<close>, respectively \<^verbatim>\<open>null\<close>.
\<close>

fun findIndex :: "('a \<Rightarrow> bool) \<Rightarrow> 'a list \<Rightarrow> nat option" where
  "findIndex P [] = None"
| "findIndex P (x # xs) = (if P x then Some 0 else map_option Suc (findIndex P xs))"

section \<open>Models (Mongoose schemas)\<close>

record user =
  user_id :: string
  role :: string

record appointment =
  apt_id :: string
  apt_patientId :: string
  apt_therapistId :: string
  apt_sessionType :: string
  apt_status :: string

record participant =
  userId :: string
  joinedAt :: "int option"
  leftAt :: "int option"

record videoSession =
  vs_id :: string
  patientId :: string
  therapistId :: string
  appointmentId :: string
  roomId :: string
  status :: string
  startTime :: "int option"
  endTime :: "int option"
  duration :: "int option"
  participants :: "participant list"
  therapistNotes :: "string option"
  patientFeedback :: "string option"

record chat =
  senderId :: string
  receiverId :: string
  message :: string
  messageType :: string
  isRead :: bool
  readAt :: "int option"
  conversationId :: string
  createdAt :: int

text \<open>
  The collections, each in insertion order. A string field that a schema leaves unset is
  the empty string (\<^verbatim>\<open>!this.conversationId\<close>, \<^verbatim>\<open>!this.roomId\<close> hold of it).
\<close>

record db =
  users :: "user list"
  appointments :: "appointment list"
  videoSessions :: "videoSession list"
  chats :: "chat list"

text \<open>\<^verbatim>\<open>findById\<close> with an id from the request: the id is cast, then looked up.\<close>

definition User_findById :: "db \<Rightarrow> string \<Rightarrow> user option outcome" where
  "User_findById d i =
     (case castObjectId i of
        None \<Rightarrow> Throws
      | Some k \<Rightarrow> Returns (find (\<lambda>u. user_id u = k) (users d)))"

definition Appointment_findById :: "db \<Rightarrow> string \<Rightarrow> appointment option outcome" where
  "Appointment_findById d i =
     (case castObjectId i of
        None \<Rightarrow> Throws
      | Some k \<Rightarrow> Returns (find (\<lambda>a. apt_id a = k) (appointments d)))"

text \<open>
  \<^verbatim>\<open>populate\<close> of a stored reference to a user: the referenced document, or \<^verbatim>\<open>null\<close>.
\<close>

definition populate_user :: "db \<Rightarrow> string \<Rightarrow> user option" where
  "populate_user d k = find (\<lambda>u. user_id u = k) (users d)"

section \<open>Chat model: the conversation id\<close>

text \<open>
  \<^verbatim>\<open>[a, b].sort().join('_')\<close>, as written in \<^verbatim>\<open>chatSchema.pre('save')\<close> (sender, receiver)
  and in \<^verbatim>\<open>getConversation\<close> (caller, other user). The default \<^verbatim>\<open>sort\<close> orders strings
  by code units; on two elements it is \<^const>\<open>sort\<close>.
\<close>

definition deriveConversationId :: "string \<Rightarrow> string \<Rightarrow> string" where
  "deriveConversationId a b = join ''_'' (sort [a, b])"

text \<open>The \<^verbatim>\<open>pre('save')\<close> hook of the chat schema.\<close>

definition chat_pre_save :: "chat \<Rightarrow> chat" where
  "chat_pre_save c =
     (if conversationId c = []
      then c\<lparr>conversationId := deriveConversationId (senderId c) (receiverId c)\<rparr>
      else c)"

definition messageType_enum :: "string list" where
  "messageType_enum = [''text'', ''image'', ''file'', ''system'']"

text \<open>
  The validators of the chat schema: sender, receiver, message and conversation id are
  required, the message has at most 1000 units, the message type is in the enum.
\<close>

definition chat_valid :: "chat \<Rightarrow> bool" where
  "chat_valid c =
     (senderId c \<noteq> [] \<and> receiverId c \<noteq> [] \<and> message c \<noteq> [] \<and> length (message c) \<le> 1000
      \<and> messageType c \<in> set messageType_enum \<and> conversationId c \<noteq> [])"

text \<open>
  \<^verbatim>\<open>chat.save()\<close> of a new document. Mongoose validates in a \<^verbatim>\<open>pre('save')\<close> hook of its own
  that runs before the hooks of the schema: a document that fails the validators is
  rejected (\<open>None\<close>, a \<^verbatim>\<open>ValidationError\<close>, which the controller's \<^verbatim>\<open>catch\<close> turns into
  a 500) before \<^const>\<open>chat_pre_save\<close> has run. Otherwise the hook runs and the document
  is appended.
\<close>

definition Chat_save_new :: "db \<Rightarrow> chat \<Rightarrow> (chat \<times> db) option" where
  "Chat_save_new d c =
     (if \<not> chat_valid c then None
      else (let c' = chat_pre_save c in Some (c', d\<lparr>chats := chats d @ [c']\<rparr>)))"

section \<open>Chat controller\<close>

text \<open>
  \<^verbatim>\<open>Appointment.find\<close> for the appointments of two users, in either assignment of the
  roles; both ids are cast.
\<close>

definition Appointment_find_between :: "db \<Rightarrow> string \<Rightarrow> string \<Rightarrow> appointment list outcome" where
  "Appointment_find_between d userId1 userId2 =
     (case (castObjectId userId1, castObjectId userId2) of
        (Some k1, Some k2) \<Rightarrow>
          Returns (filter (\<lambda>a. (apt_patientId a = k1 \<and> apt_therapistId a = k2)
                              \<or> (apt_patientId a = k2 \<and> apt_therapistId a = k1))
                     (appointments d))
      | _ \<Rightarrow> Throws)"

text \<open>
  \<^verbatim>\<open>checkTherapeuticRelationship\<close> of the chat controller. Both users are fetched before
  either is tested.
\<close>

definition checkTherapeuticRelationship :: "db \<Rightarrow> string \<Rightarrow> string \<Rightarrow> bool outcome" where
  "checkTherapeuticRelationship d userId1 userId2 =
     (case User_findById d userId1 of
        Throws \<Rightarrow> Throws
      | Returns found1 \<Rightarrow>
          (case User_findById d userId2 of
             Throws \<Rightarrow> Throws
           | Returns found2 \<Rightarrow>
               (case (found1, found2) of
                  (Some user1, Some user2) \<Rightarrow>
                    if role user1 = ''admin'' \<or> role user2 = ''admin'' then Returns True
                    else if (role user1 = ''patient'' \<and> role user2 = ''therapist'')
                          \<or> (role user1 = ''therapist'' \<and> role user2 = ''patient'')
                    then (case Appointment_find_between d userId1 userId2 of
                            Throws \<Rightarrow> Throws
                          | Returns found \<Rightarrow> Returns (found \<noteq> []))
                    else Returns False
                | _ \<Rightarrow> Returns False)))"

text \<open>
  \<^verbatim>\<open>sendMessage\<close>. \<open>uid\<close> and \<open>urole\<close> are \<^verbatim>\<open>req.user.id\<close> and \<^verbatim>\<open>req.user.role\<close>; the three
  optional strings are the body's \<^verbatim>\<open>receiverId\<close>, \<^verbatim>\<open>message\<close> and \<^verbatim>\<open>messageType\<close>. The
  new document is built without a conversation id, which the schema requires. The answer
  on success is status 201 with the saved document (the populated sender and receiver
  profiles are not part of the model).
\<close>

definition sendMessage ::
  "int \<Rightarrow> db \<Rightarrow> string \<Rightarrow> string \<Rightarrow> string option \<Rightarrow> string option \<Rightarrow> string option
     \<Rightarrow> (http_error + chat) \<times> db" where
  "sendMessage now d uid urole receiverId_opt message_opt messageType_opt =
     (if falsy receiverId_opt \<or> falsy message_opt
      then (Inl (400, ''Please provide receiver ID and message''), d)
      else
        (case (receiverId_opt, message_opt) of
           (Some rid, Some msg) \<Rightarrow>
             if length msg > 1000
             then (Inl (400, ''Message too long (max 1000 characters)''), d)
             else
               (case User_findById d rid of
                  Throws \<Rightarrow> (Inl (500, ''Server error''), d)
                | Returns None \<Rightarrow> (Inl (404, ''Receiver not found''), d)
                | Returns (Some receiver) \<Rightarrow>
                    (case checkTherapeuticRelationship d uid rid of
                       Throws \<Rightarrow> (Inl (500, ''Server error''), d)
                     | Returns isTherapeuticRelationship \<Rightarrow>
                         if \<not> isTherapeuticRelationship \<and> urole \<noteq> ''admin''
                         then (Inl (403, ''You can only message your assigned therapist/patients''), d)
                         else
                           (case Chat_save_new d
                                   \<lparr>senderId = asObjectId uid, receiverId = asObjectId rid,
                                    message = msg,
                                    messageType =
                                      (case messageType_opt of None \<Rightarrow> ''text'' | Some t \<Rightarrow> t),
                                    isRead = False, readAt = None, conversationId = [],
                                    createdAt = now\<rparr> of
                              None \<Rightarrow> (Inl (500, ''Server error''), d)
                            | Some (c, d') \<Rightarrow> (Inr c, d'))))
         | _ \<Rightarrow> (Inl (400, ''Please provide receiver ID and message''), d)))"

text \<open>
  \<^verbatim>\<open>Chat.updateMany({conversationId, receiverId, isRead: false}, {isRead: true, readAt})\<close>.
\<close>

definition Chat_markRead :: "int \<Rightarrow> string \<Rightarrow> string \<Rightarrow> chat list \<Rightarrow> chat list" where
  "Chat_markRead now cid uid cs =
     map (\<lambda>m. if conversationId m = cid \<and> receiverId m = uid \<and> \<not> isRead m
               then m\<lparr>isRead := True, readAt := Some now\<rparr> else m) cs"

text \<open>
  The query of \<^verbatim>\<open>getConversation\<close>: the conversation's messages, newest first, one page
  of them. MongoDB skips before it limits, and a limit of 0 is no limit.
\<close>

definition Chat_findPage :: "string \<Rightarrow> nat \<Rightarrow> nat \<Rightarrow> chat list \<Rightarrow> chat list" where
  "Chat_findPage cid page limit cs =
     (let sorted_desc = sort_key (\<lambda>m. - createdAt m) (filter (\<lambda>m. conversationId m = cid) cs)
      in if limit = 0 then sorted_desc
         else take limit (drop ((page - 1) * limit) sorted_desc))"

record conversation_page =
  cp_data :: "chat list"
  cp_page :: nat
  cp_limit :: nat
  cp_hasMore :: bool

text \<open>
  \<^verbatim>\<open>getConversation\<close>. \<open>page_opt\<close> and \<open>limit_opt\<close> are the query parameters after
  \<^verbatim>\<open>parseInt\<close>, absent ones defaulting to 1 and 50. Page 0 with a positive limit asks
  MongoDB for a negative skip, which the driver rejects; the \<^verbatim>\<open>catch\<close> answers 500.
  The page is read before the messages are marked as read, so the answer shows them as
  they were.
\<close>

definition getConversation ::
  "int \<Rightarrow> db \<Rightarrow> string \<Rightarrow> string \<Rightarrow> string \<Rightarrow> nat option \<Rightarrow> nat option
     \<Rightarrow> (http_error + conversation_page) \<times> db" where
  "getConversation now d uid urole other page_opt limit_opt =
     (let page = (case page_opt of None \<Rightarrow> 1 | Some p \<Rightarrow> p);
          limit = (case limit_opt of None \<Rightarrow> 50 | Some l \<Rightarrow> l)
      in (case checkTherapeuticRelationship d uid other of
            Throws \<Rightarrow> (Inl (500, ''Server error''), d)
          | Returns isTherapeuticRelationship \<Rightarrow>
              if \<not> isTherapeuticRelationship \<and> urole \<noteq> ''admin''
              then (Inl (403, ''Access denied''), d)
              else
                (let cid = deriveConversationId uid other in
                 if page = 0 \<and> limit \<noteq> 0 then (Inl (500, ''Server error''), d)
                 else
                   (let messages = Chat_findPage cid page limit (chats d);
                        d' = d\<lparr>chats := Chat_markRead now cid uid (chats d)\<rparr>
                    in (Inr \<lparr>cp_data = rev messages, cp_page = page, cp_limit = limit,
                             cp_hasMore = (length messages = limit)\<rparr>, d')))))"

text \<open>\<^verbatim>\<open>markAsRead\<close>: no relationship check, the conversation id is taken as given.\<close>

definition markAsRead :: "int \<Rightarrow> db \<Rightarrow> string \<Rightarrow> string \<Rightarrow> (http_error + string) \<times> db" where
  "markAsRead now d uid cid =
     (Inr ''Messages marked as read'', d\<lparr>chats := Chat_markRead now cid uid (chats d)\<rparr>)"

section \<open>Video session model\<close>

text \<open>
  The first document a \<^verbatim>\<open>findOne\<close> query matches, with its position in the collection:
  the position is where \<^verbatim>\<open>save()\<close> of the loaded document writes back.
\<close>

fun findOne :: "('a \<Rightarrow> bool) \<Rightarrow> 'a list \<Rightarrow> (nat \<times> 'a) option" where
  "findOne P [] = None"
| "findOne P (x # xs) =
     (if P x then Some (0, x) else map_option (\<lambda>(i, y). (Suc i, y)) (findOne P xs))"

definition status_enum :: "string list" where
  "status_enum = [''waiting'', ''active'', ''ended'', ''cancelled'']"

text \<open>
  The \<^verbatim>\<open>pre('save')\<close> hook of the video session schema. The generated string
  \<^verbatim>\<open>room_${Date.now()}_${random}\<close> is the argument \<open>gen_roomId\<close>.
\<close>

definition videoSession_pre_save :: "string \<Rightarrow> videoSession \<Rightarrow> videoSession" where
  "videoSession_pre_save gen_roomId vs = (if roomId vs = [] then vs\<lparr>roomId := gen_roomId\<rparr> else vs)"

text \<open>
  The validators of the video session schema: patient, therapist, appointment and room id
  are required, the status is in the enum.
\<close>

definition videoSession_valid :: "videoSession \<Rightarrow> bool" where
  "videoSession_valid vs =
     (patientId vs \<noteq> [] \<and> therapistId vs \<noteq> [] \<and> appointmentId vs \<noteq> [] \<and> roomId vs \<noteq> []
      \<and> status vs \<in> set status_enum)"

text \<open>
  \<^verbatim>\<open>save()\<close> of a new session. As for a chat, the validators run before the hook of the
  schema, so a document without a room id is rejected (\<open>None\<close>) before
  \<^const>\<open>videoSession_pre_save\<close> could give it one. Otherwise the hook runs, the unique
  indexes on \<^verbatim>\<open>_id\<close> and \<^verbatim>\<open>roomId\<close> are checked, and the document is inserted.
\<close>

definition VideoSession_save_new :: "string \<Rightarrow> db \<Rightarrow> videoSession \<Rightarrow> (videoSession \<times> db) option" where
  "VideoSession_save_new gen_roomId d vs =
     (if \<not> videoSession_valid vs then None
      else
        (let vs' = videoSession_pre_save gen_roomId vs in
         if roomId vs' \<in> set (map roomId (videoSessions d))
            \<or> vs_id vs' \<in> set (map vs_id (videoSessions d))
         then None
         else Some (vs', d\<lparr>videoSessions := videoSessions d @ [vs']\<rparr>)))"

text \<open>\<^verbatim>\<open>VideoSession.findOne({ appointmentId })\<close> with the id of the request body.\<close>

definition VideoSession_findOne_appointment ::
  "db \<Rightarrow> string \<Rightarrow> (nat \<times> videoSession) option outcome" where
  "VideoSession_findOne_appointment d aid =
     (case castObjectId aid of
        None \<Rightarrow> Throws
      | Some k \<Rightarrow> Returns (findOne (\<lambda>s. appointmentId s = k) (videoSessions d)))"

text \<open>\<^verbatim>\<open>save()\<close> of a loaded session whose status was assigned: the enum is validated.\<close>

definition VideoSession_save_status :: "db \<Rightarrow> nat \<Rightarrow> videoSession \<Rightarrow> db option" where
  "VideoSession_save_status d i vs =
     (if status vs \<notin> set status_enum then None
      else Some (d\<lparr>videoSessions := (videoSessions d)[i := vs]\<rparr>))"

text \<open>
  \<^verbatim>\<open>Appointment.findByIdAndUpdate(id, { status: 'completed' })\<close>: the first appointment
  with that id is updated; no appointment with that id is no error.
\<close>

fun Appointment_markCompleted :: "string \<Rightarrow> appointment list \<Rightarrow> appointment list" where
  "Appointment_markCompleted i [] = []"
| "Appointment_markCompleted i (a # as) =
     (if apt_id a = i then a\<lparr>apt_status := ''completed''\<rparr> # as
      else a # Appointment_markCompleted i as)"

section \<open>Video controller\<close>

record session_info =
  si_roomId :: string
  si_sessionId :: string
  si_status :: string
  si_participants :: nat

text \<open>
  The second half of \<^verbatim>\<open>createVideoSession\<close>: add the caller as a participant if not
  already added, save in that case only, and answer. \<open>i\<close> is the position of \<open>vs\<close>.
\<close>

definition addParticipant :: "int \<Rightarrow> db \<Rightarrow> nat \<Rightarrow> videoSession \<Rightarrow> string
     \<Rightarrow> (http_error + session_info) \<times> db" where
  "addParticipant now d i vs uid =
     (case find (\<lambda>p. userId p = uid) (participants vs) of
        Some existingParticipant \<Rightarrow>
          (Inr \<lparr>si_roomId = roomId vs, si_sessionId = vs_id vs, si_status = status vs,
                si_participants = length (participants vs)\<rparr>, d)
      | None \<Rightarrow>
          (let vs' = vs\<lparr>participants :=
                          participants vs @ [\<lparr>userId = uid, joinedAt = Some now, leftAt = None\<rparr>]\<rparr>
           in (Inr \<lparr>si_roomId = roomId vs', si_sessionId = vs_id vs', si_status = status vs',
                    si_participants = length (participants vs')\<rparr>,
               d\<lparr>videoSessions := (videoSessions d)[i := vs']\<rparr>)))"

text \<open>
  \<^verbatim>\<open>createVideoSession\<close>. \<open>gen_id\<close> and \<open>gen_roomId\<close> are the \<^verbatim>\<open>_id\<close> and the room id
  that a new document would get. The appointment is loaded with its patient and therapist
  populated; a reference to a user that does not exist populates to \<^verbatim>\<open>null\<close>, and reading
  \<^verbatim>\<open>._id\<close> of it throws into the \<^verbatim>\<open>catch\<close>. The only check on the appointment itself is
  its status. The new document is built without a room id, which the schema requires.
\<close>

definition createVideoSession ::
  "int \<Rightarrow> string \<Rightarrow> string \<Rightarrow> db \<Rightarrow> string \<Rightarrow> string option
     \<Rightarrow> (http_error + session_info) \<times> db" where
  "createVideoSession now gen_id gen_roomId d uid appointmentId_opt =
     (case appointmentId_opt of
        None \<Rightarrow> (Inl (400, ''Appointment ID is required''), d)
      | Some aid \<Rightarrow>
          if aid = [] then (Inl (400, ''Appointment ID is required''), d)
          else
            (case Appointment_findById d aid of
               Throws \<Rightarrow> (Inl (500, ''Server error''), d)
             | Returns None \<Rightarrow> (Inl (404, ''Appointment not found''), d)
             | Returns (Some apt) \<Rightarrow>
                 (case (populate_user d (apt_patientId apt), populate_user d (apt_therapistId apt)) of
                    (Some patient, Some therapist) \<Rightarrow>
                      if user_id patient \<noteq> uid \<and> user_id therapist \<noteq> uid
                      then (Inl (403, ''Access denied''), d)
                      else if apt_status apt \<noteq> ''confirmed''
                      then (Inl (400, ''Appointment must be confirmed to start video session''), d)
                      else
                        (case VideoSession_findOne_appointment d aid of
                           Throws \<Rightarrow> (Inl (500, ''Server error''), d)
                         | Returns (Some (i, vs)) \<Rightarrow> addParticipant now d i vs uid
                         | Returns None \<Rightarrow>
                             (case VideoSession_save_new gen_roomId d
                                     \<lparr>vs_id = gen_id, patientId = user_id patient,
                                      therapistId = user_id therapist,
                                      appointmentId = asObjectId aid,
                                      roomId = [], status = ''waiting'', startTime = None,
                                      endTime = None, duration = None, participants = [],
                                      therapistNotes = None, patientFeedback = None\<rparr> of
                                None \<Rightarrow> (Inl (500, ''Server error''), d)
                              | Some (vs, d') \<Rightarrow>
                                  addParticipant now d' (length (videoSessions d)) vs uid))
                  | _ \<Rightarrow> (Inl (500, ''Server error''), d))))"

text \<open>
  \<^verbatim>\<open>updateSessionStatus\<close>, for a body whose \<^verbatim>\<open>status\<close> is a string. \<open>apptUpdateOk\<close> says
  whether the awaited \<^verbatim>\<open>Appointment.findByIdAndUpdate\<close> resolves; when it rejects, control
  passes to the \<^verbatim>\<open>catch\<close> before \<^verbatim>\<open>videoSession.save()\<close> is reached. The requested status
  is assigned whatever the current status is. The appointment is updated before the
  session is saved, so a rejected save leaves the appointment updated.
\<close>

definition updateSessionStatus ::
  "int \<Rightarrow> bool \<Rightarrow> db \<Rightarrow> string \<Rightarrow> string \<Rightarrow> string \<Rightarrow> string \<Rightarrow> string option
     \<Rightarrow> (http_error + videoSession) \<times> db" where
  "updateSessionStatus now apptUpdateOk d uid urole rid new_status sessionNotes =
     (case findOne (\<lambda>s. roomId s = rid) (videoSessions d) of
        None \<Rightarrow> (Inl (404, ''Video session not found''), d)
      | Some (i, vs) \<Rightarrow>
          if patientId vs \<noteq> uid \<and> therapistId vs \<noteq> uid
          then (Inl (403, ''Access denied''), d)
          else
            (let vs1 = vs\<lparr>status := new_status\<rparr>;
                 vs2 = (if new_status = ''active'' \<and> startTime vs1 = None
                        then vs1\<lparr>startTime := Some now\<rparr> else vs1);
                 vs3 = (if new_status = ''ended''
                        then (case startTime vs2 of
                                None \<Rightarrow> vs2\<lparr>endTime := Some now\<rparr>
                              | Some t \<Rightarrow> vs2\<lparr>endTime := Some now,
                                              duration := Some ((now - t) div 1000)\<rparr>)
                        else vs2)
             in if new_status = ''ended'' \<and> \<not> apptUpdateOk
                then (Inl (500, ''Server error''), d)
                else
                  (let d1 = (if new_status = ''ended''
                             then d\<lparr>appointments :=
                                      Appointment_markCompleted (appointmentId vs3) (appointments d)\<rparr>
                             else d);
                       vs4 = (if falsy sessionNotes then vs3
                              else if urole = ''therapist''
                              then vs3\<lparr>therapistNotes := sessionNotes\<rparr>
                              else vs3\<lparr>patientFeedback := sessionNotes\<rparr>)
                   in (case VideoSession_save_status d1 i vs4 of
                         None \<Rightarrow> (Inl (500, ''Server error''), d1)
                       | Some d2 \<Rightarrow> (Inr vs4, d2)))))"

record join_info =
  ji_roomId :: string
  ji_status :: string
  ji_participants :: nat

text \<open>\<^verbatim>\<open>joinVideoSession\<close>.\<close>

definition joinVideoSession ::
  "int \<Rightarrow> db \<Rightarrow> string \<Rightarrow> string \<Rightarrow> (http_error + join_info) \<times> db" where
  "joinVideoSession now d uid rid =
     (case findOne (\<lambda>s. roomId s = rid) (videoSessions d) of
        None \<Rightarrow> (Inl (404, ''Video session not found''), d)
      | Some (i, vs) \<Rightarrow>
          if patientId vs \<noteq> uid \<and> therapistId vs \<noteq> uid
          then (Inl (403, ''Access denied''), d)
          else
            (let ps = participants vs;
                 ps' = (case findIndex (\<lambda>p. userId p = uid) ps of
                          Some participantIndex \<Rightarrow>
                            ps[participantIndex := (ps ! participantIndex)\<lparr>joinedAt := Some now\<rparr>]
                        | None \<Rightarrow> ps @ [\<lparr>userId = uid, joinedAt = Some now, leftAt = None\<rparr>]);
                 vs' = vs\<lparr>participants := ps'\<rparr>
             in (Inr \<lparr>ji_roomId = roomId vs', ji_status = status vs',
                      ji_participants = length (participants vs')\<rparr>,
                 d\<lparr>videoSessions := (videoSessions d)[i := vs']\<rparr>)))"

section \<open>Socket handlers\<close>

text \<open>
  The state the socket handlers share: \<^verbatim>\<open>activeUsers\<close>, a \<^verbatim>\<open>Map\<close> from a user id to one
  socket id; the rooms of the Socket.IO server (room name to member socket ids); and, for
  each connected socket, its \<^verbatim>\<open>socket.userId\<close> (\<open>None\<close> until \<^verbatim>\<open>authenticate\<close> succeeds).
\<close>

record server =
  activeUsers :: "string \<rightharpoonup> string"
  rooms :: "string \<Rightarrow> string set"
  socket_userId :: "string \<rightharpoonup> string"

text \<open>The payloads the handlers emit; a sender identity is \<^verbatim>\<open>socket.userId\<close> as it is.\<close>

datatype event =
    auth_error string
  | user_joined "string option"
  | user_left "string option"
  | video_signal_ev string "string option"
  | new_message "string option" string string int
  | user_typing "string option" string
  | user_stopped_typing "string option" string

text \<open>
  Where an emit goes: \<^verbatim>\<open>socket.emit\<close> (the socket itself), \<^verbatim>\<open>socket.to(room)\<close> (the room's
  members except the socket), \<^verbatim>\<open>io.to(room)\<close> (all of the room's members).
\<close>

datatype target = ToSelf string | ToRoomExcept string string | ToRoom string

fun recipients :: "server \<Rightarrow> target \<Rightarrow> string set" where
  "recipients st (ToSelf sid) = {sid}"
| "recipients st (ToRoomExcept room sid) = rooms st room - {sid}"
| "recipients st (ToRoom room) = rooms st room"

text \<open>
  \<^verbatim>\<open>authenticate\<close>. \<open>verify\<close> is \<^verbatim>\<open>jwt.verify\<close> with the server's secret, giving the
  token's \<^verbatim>\<open>userId\<close>, or \<open>None\<close> where it throws.
\<close>

definition authenticate ::
  "(string \<Rightarrow> string option) \<Rightarrow> server \<Rightarrow> string \<Rightarrow> string \<Rightarrow> server \<times> (target \<times> event) list" where
  "authenticate verify st sid token =
     (case verify token of
        Some decoded_userId \<Rightarrow>
          (st\<lparr>socket_userId := (socket_userId st)(sid \<mapsto> decoded_userId),
              activeUsers := (activeUsers st)(decoded_userId \<mapsto> sid)\<rparr>, [])
      | None \<Rightarrow> (st, [(ToSelf sid, auth_error ''Invalid token'')]))"

definition join_video_session :: "server \<Rightarrow> string \<Rightarrow> string \<Rightarrow> server \<times> (target \<times> event) list" where
  "join_video_session st sid room =
     (st\<lparr>rooms := (rooms st)(room := insert sid (rooms st room))\<rparr>,
      [(ToRoomExcept room sid, user_joined (socket_userId st sid))])"

definition leave_video_session :: "server \<Rightarrow> string \<Rightarrow> string \<Rightarrow> server \<times> (target \<times> event) list" where
  "leave_video_session st sid room =
     (st\<lparr>rooms := (rooms st)(room := rooms st room - {sid})\<rparr>,
      [(ToRoomExcept room sid, user_left (socket_userId st sid))])"

text \<open>\<^verbatim>\<open>video_signal\<close>: \<open>room\<close> and \<open>signal\<close> are \<^verbatim>\<open>data.roomId\<close> and \<^verbatim>\<open>data.signal\<close>.\<close>

definition video_signal ::
  "server \<Rightarrow> string \<Rightarrow> string \<Rightarrow> string \<Rightarrow> server \<times> (target \<times> event) list" where
  "video_signal st sid room signal =
     (st, [(ToRoomExcept room sid, video_signal_ev signal (socket_userId st sid))])"

text \<open>\<^verbatim>\<open>send_message\<close>: relayed only if \<^verbatim>\<open>activeUsers\<close> has a (non-empty) socket id.\<close>

definition send_message ::
  "int \<Rightarrow> server \<Rightarrow> string \<Rightarrow> string \<Rightarrow> string \<Rightarrow> string \<Rightarrow> server \<times> (target \<times> event) list" where
  "send_message now st sid receiverId' message' conversationId' =
     (case activeUsers st receiverId' of
        None \<Rightarrow> (st, [])
      | Some receiverSocketId \<Rightarrow>
          if receiverSocketId = [] then (st, [])
          else (st, [(ToRoom receiverSocketId,
                      new_message (socket_userId st sid) message' conversationId' now)]))"

text \<open>
  \<^verbatim>\<open>disconnect\<close>: the entry of the socket's user is deleted, whichever socket it names.
  (Socket.IO itself then takes the socket out of its rooms.)
\<close>

definition disconnect :: "server \<Rightarrow> string \<Rightarrow> server" where
  "disconnect st sid =
     (case socket_userId st sid of
        None \<Rightarrow> st
      | Some u \<Rightarrow> if u = [] then st else st\<lparr>activeUsers := (activeUsers st)(u := None)\<rparr>)"

section \<open>Invariants and example data\<close>

text \<open>No session lists the same user twice among its participants.\<close>

definition sessions_distinct :: "db \<Rightarrow> bool" where
  "sessions_distinct d = list_all (\<lambda>s. distinct (map userId (participants s))) (videoSessions d)"

text \<open>
  Ids of four users, of four appointments (the last one of no stored appointment) and of
  two sessions. The users are a patient, a therapist, an admin and a second patient; the
  first two have three appointments (a confirmed video one, a confirmed phone one, an
  unconfirmed video one). The stored session of the first appointment has the patient as
  its only participant, joined at time 1000, in a given status and with a given start
  time.
\<close>

definition id_p1 :: string where "id_p1 = ''64a1f0c2e4b0a1b2c3d4e001''"
definition id_t1 :: string where "id_t1 = ''64a1f0c2e4b0a1b2c3d4e002''"
definition id_a1 :: string where "id_a1 = ''64a1f0c2e4b0a1b2c3d4e003''"
definition id_p2 :: string where "id_p2 = ''64a1f0c2e4b0a1b2c3d4e004''"
definition id_ap1 :: string where "id_ap1 = ''64a1f0c2e4b0a1b2c3d4f001''"
definition id_ap2 :: string where "id_ap2 = ''64a1f0c2e4b0a1b2c3d4f002''"
definition id_ap3 :: string where "id_ap3 = ''64a1f0c2e4b0a1b2c3d4f003''"
definition id_ap9 :: string where "id_ap9 = ''64a1f0c2e4b0a1b2c3d4f009''"
definition id_vs1 :: string where "id_vs1 = ''64a1f0c2e4b0a1b2c3d4d001''"
definition id_vs2 :: string where "id_vs2 = ''64a1f0c2e4b0a1b2c3d4d002''"

definition ex_db :: db where
  "ex_db =
     \<lparr>users = [\<lparr>user_id = id_p1, role = ''patient''\<rparr>,
               \<lparr>user_id = id_t1, role = ''therapist''\<rparr>,
               \<lparr>user_id = id_a1, role = ''admin''\<rparr>,
               \<lparr>user_id = id_p2, role = ''patient''\<rparr>],
      appointments =
        [\<lparr>apt_id = id_ap1, apt_patientId = id_p1, apt_therapistId = id_t1,
          apt_sessionType = ''video'', apt_status = ''confirmed''\<rparr>,
         \<lparr>apt_id = id_ap2, apt_patientId = id_p1, apt_therapistId = id_t1,
          apt_sessionType = ''phone'', apt_status = ''confirmed''\<rparr>,
         \<lparr>apt_id = id_ap3, apt_patientId = id_p1, apt_therapistId = id_t1,
          apt_sessionType = ''video'', apt_status = ''pending_confirmation''\<rparr>],
      videoSessions = [],
      chats = []\<rparr>"

definition ex_session :: "string \<Rightarrow> int option \<Rightarrow> videoSession" where
  "ex_session st start =
     \<lparr>vs_id = id_vs1, patientId = id_p1, therapistId = id_t1, appointmentId = id_ap1,
      roomId = ''room_1'', status = st, startTime = start, endTime = None, duration = None,
      participants = [\<lparr>userId = id_p1, joinedAt = Some 1000, leftAt = None\<rparr>],
      therapistNotes = None, patientFeedback = None\<rparr>"

definition ex_db_session :: "string \<Rightarrow> int option \<Rightarrow> db" where
  "ex_db_session st start = ex_db\<lparr>videoSessions := [ex_session st start]\<rparr>"

text \<open>The same session after the therapist has joined it at time 2000.\<close>

definition ex_session_both :: videoSession where
  "ex_session_both = (ex_session ''waiting'' None)\<lparr>participants :=
      [\<lparr>userId = id_p1, joinedAt = Some 1000, leftAt = None\<rparr>,
       \<lparr>userId = id_t1, joinedAt = Some 2000, leftAt = None\<rparr>]\<rparr>"

text \<open>
  A server with no connection yet, and a token check that accepts one token, of user
  \<open>u1\<close>.
\<close>

definition ex_server :: server where
  "ex_server = \<lparr>activeUsers = Map.empty, rooms = (\<lambda>room. {}), socket_userId = Map.empty\<rparr>"

definition ex_verify :: "string \<Rightarrow> string option" where
  "ex_verify token = (if token = ''token_u1'' then Some ''u1'' else None)"

text \<open>
  A server on which the socket \<open>s9\<close> of user \<open>u9\<close> has authenticated and sits in the
  room \<open>room_1\<close>.
\<close>

definition ex_server_room :: server where
  "ex_server_room =
     \<lparr>activeUsers = [''u9'' \<mapsto> ''s9''],
      rooms = (\<lambda>room. {})(''room_1'' := {''s9''}),
      socket_userId = [''s9'' \<mapsto> ''u9'']\<rparr>"

section \<open>Conversation identity: theorems\<close>

lemma deriveConversationId_cases:
  "deriveConversationId a b = (if a \<le> b then a @ ''_'' @ b else b @ ''_'' @ a)"
  by (simp add: deriveConversationId_def)

text \<open>
  C6. The conversation id is symmetric: the id derived for (a, b) is the id derived for
  (b, a), and it is the smaller identity, an underscore, the larger identity. The id the
  save hook gives a new message from sender to receiver is therefore the id that
  \<^verbatim>\<open>getConversation\<close> derives when the receiver asks for the sender.
\<close>

theorem conversationId_symmetric:
  "deriveConversationId a b = deriveConversationId b a
   \<and> deriveConversationId a b = min a b @ ''_'' @ max a b
   \<and> conversationId (chat_pre_save (c\<lparr>conversationId := []\<rparr>))
       = deriveConversationId (receiverId c) (senderId c)"
  by (auto simp: deriveConversationId_cases chat_pre_save_def min_def max_def)

section \<open>Queries: basic facts\<close>

lemma findOne_Some:
  "findOne P xs = Some (i, x) \<Longrightarrow> i < length xs \<and> xs ! i = x \<and> P x"
proof (induction xs arbitrary: i)
  case Nil
  then show ?case by simp
next
  case (Cons y ys)
  show ?case
  proof (cases "P y")
    case True
    with Cons.prems show ?thesis by simp
  next
    case False
    with Cons.prems obtain j where j: "findOne P ys = Some (j, x)" and i: "i = Suc j"
      by (auto split: prod.splits)
    from Cons.IH [OF j] i show ?thesis by simp
  qed
qed

lemma findOne_update:
  "findOne P xs = Some (i, x) \<Longrightarrow> P y \<Longrightarrow> findOne P (xs[i := y]) = Some (i, y)"
proof (induction xs arbitrary: i)
  case Nil
  then show ?case by simp
next
  case (Cons z zs)
  show ?case
  proof (cases "P z")
    case True
    with Cons.prems show ?thesis by simp
  next
    case False
    with Cons.prems obtain j where j: "findOne P zs = Some (j, x)" and i: "i = Suc j"
      by (auto split: prod.splits)
    from Cons.IH [OF j Cons.prems(2)] i False show ?thesis by simp
  qed
qed

lemma findIndex_None: "findIndex P xs = None \<longleftrightarrow> (\<forall>x \<in> set xs. \<not> P x)"
  by (induction xs) auto

lemma findIndex_Some: "findIndex P xs = Some k \<Longrightarrow> k < length xs \<and> P (xs ! k)"
proof (induction xs arbitrary: k)
  case Nil
  then show ?case by simp
next
  case (Cons x xs)
  then show ?case by (cases "P x") auto
qed

lemma populate_user_Some: "populate_user d k = Some u \<Longrightarrow> user_id u = k"
  by (auto simp: populate_user_def find_Some_iff)

lemma Appointment_markCompleted_find:
  "find (\<lambda>a. apt_id a = i) as = Some a
   \<Longrightarrow> find (\<lambda>a. apt_id a = i) (Appointment_markCompleted i as)
        = Some (a\<lparr>apt_status := ''completed''\<rparr>)"
  by (induction as) (auto split: if_splits)

section \<open>Facts about the example data\<close>

lemmas id_defs = id_p1_def id_t1_def id_a1_def id_p2_def id_ap1_def id_ap2_def id_ap3_def
  id_ap9_def id_vs1_def id_vs2_def

lemmas cast_defs = castObjectId_def isHexDigit_def toLowerHex_def

lemma cast_example_ids:
  "castObjectId id_p1 = Some id_p1" "castObjectId id_t1 = Some id_t1"
  "castObjectId id_a1 = Some id_a1" "castObjectId id_p2 = Some id_p2"
  "castObjectId id_ap1 = Some id_ap1" "castObjectId id_ap2 = Some id_ap2"
  "castObjectId id_ap3 = Some id_ap3" "castObjectId id_ap9 = Some id_ap9"
  by (simp_all add: cast_defs id_defs)

lemmas ex_defs = ex_db_def ex_session_def ex_db_session_def id_defs

section \<open>Status updates\<close>

text \<open>
  C1, as amended. \<^const>\<open>updateSessionStatus\<close> has no check on the current status: on a
  session whose status is \<open>ended\<close> or \<open>cancelled\<close>, a call by the patient or the
  therapist with a status of the enum (the appointment update resolving, when the new
  status is \<open>ended\<close>) succeeds, and the stored session then has the requested status.
\<close>

theorem updateSessionStatus_from_terminal:
  assumes found: "findOne (\<lambda>s. roomId s = rid) (videoSessions d) = Some (i, vs)"
    and terminal: "status vs = ''ended'' \<or> status vs = ''cancelled''"
    and party: "uid = patientId vs \<or> uid = therapistId vs"
    and valid: "new_status \<in> set status_enum"
    and ext: "new_status = ''ended'' \<longrightarrow> apptUpdateOk"
  shows "\<exists>vs' d'. updateSessionStatus now apptUpdateOk d uid urole rid new_status notes = (Inr vs', d')
           \<and> status vs' = new_status
           \<and> findOne (\<lambda>s. roomId s = rid) (videoSessions d') = Some (i, vs')"
proof -
  from findOne_Some [OF found] have rid: "roomId vs = rid" by simp
  have upd: "\<And>v. roomId v = rid \<Longrightarrow>
      findOne (\<lambda>s. roomId s = rid) ((videoSessions d)[i := v]) = Some (i, v)"
    using findOne_update [OF found] by simp
  show ?thesis
    using found party valid ext rid
    by (auto simp: updateSessionStatus_def VideoSession_save_status_def Let_def upd
             split: option.splits)
qed

text \<open>
  A cancelled session is put back to \<open>waiting\<close> by its therapist.
\<close>

theorem updateSessionStatus_from_terminal_witness:
  "findOne (\<lambda>s. roomId s = ''room_1'') (videoSessions (ex_db_session ''cancelled'' None))
     = Some (0, ex_session ''cancelled'' None)
   \<and> status (ex_session ''cancelled'' None) = ''cancelled''
   \<and> (\<exists>vs' d'. updateSessionStatus 9000 False (ex_db_session ''cancelled'' None)
                   id_t1 ''therapist'' ''room_1'' ''waiting'' None = (Inr vs', d')
         \<and> status vs' = ''waiting''
         \<and> findOne (\<lambda>s. roomId s = ''room_1'') (videoSessions d') = Some (0, vs'))"
proof -
  have f: "findOne (\<lambda>s. roomId s = ''room_1'') (videoSessions (ex_db_session ''cancelled'' None))
             = Some (0, ex_session ''cancelled'' None)"
    by (simp add: ex_defs)
  have s: "status (ex_session ''cancelled'' None) = ''cancelled''"
    by (simp add: ex_defs)
  have p: "id_t1 = patientId (ex_session ''cancelled'' None)
           \<or> id_t1 = therapistId (ex_session ''cancelled'' None)"
    by (simp add: ex_defs)
  have v: "''waiting'' \<in> set status_enum" by (simp add: status_enum_def)
  from updateSessionStatus_from_terminal [OF f disjI2 [OF s] p v, of False 9000 "''therapist''" None] f s
  show ?thesis by simp
qed

text \<open>
  C1 as stated fails: the patient sets an ended session to \<open>active\<close>; the call
  succeeds and the stored status is \<open>active\<close>.
\<close>

theorem terminal_transition_counterexample:
  "updateSessionStatus 9000 True (ex_db_session ''ended'' (Some 1000))
      id_p1 ''patient'' ''room_1'' ''active'' None
   = (Inr (ex_session ''active'' (Some 1000)), ex_db_session ''active'' (Some 1000))"
  by (simp add: ex_defs updateSessionStatus_def VideoSession_save_status_def status_enum_def
        falsy_def Let_def)

text \<open>
  C2, as amended. For a transition to \<open>ended\<close> by the patient or the therapist: when the
  call that marks the appointment completed fails, the request is answered 500 and the
  database is left as it was, the session not saved; when it succeeds, the session is
  saved as \<open>ended\<close> with its end time, and the linked appointment, if it exists, has the
  status \<open>completed\<close>.
\<close>

theorem updateSessionStatus_ended_appointment_update:
  assumes found: "findOne (\<lambda>s. roomId s = rid) (videoSessions d) = Some (i, vs)"
    and party: "uid = patientId vs \<or> uid = therapistId vs"
  shows "updateSessionStatus now False d uid urole rid ''ended'' notes
           = (Inl (500, ''Server error''), d)
         \<and> (\<exists>vs'. updateSessionStatus now True d uid urole rid ''ended'' notes
                = (Inr vs', d\<lparr>appointments :=
                                 Appointment_markCompleted (appointmentId vs) (appointments d),
                               videoSessions := (videoSessions d)[i := vs']\<rparr>)
              \<and> status vs' = ''ended'' \<and> endTime vs' = Some now)
         \<and> findOne (\<lambda>s. roomId s = rid)
              (videoSessions (snd (updateSessionStatus now True d uid urole rid ''ended'' notes)))
             = Some (i, vs\<lparr>status := ''ended'', endTime := Some now\<rparr>
                          \<lparr>duration := (case startTime vs of None \<Rightarrow> duration vs
                                        | Some t \<Rightarrow> Some ((now - t) div 1000)),
                           therapistNotes := (if \<not> falsy notes \<and> urole = ''therapist''
                                              then notes else therapistNotes vs),
                           patientFeedback := (if \<not> falsy notes \<and> urole \<noteq> ''therapist''
                                               then notes else patientFeedback vs)\<rparr>)
         \<and> (\<forall>a. find (\<lambda>a. apt_id a = appointmentId vs) (appointments d) = Some a
              \<longrightarrow> find (\<lambda>a. apt_id a = appointmentId vs)
                     (appointments (snd (updateSessionStatus now True d uid urole rid ''ended'' notes)))
                  = Some (a\<lparr>apt_status := ''completed''\<rparr>))"
proof (intro conjI allI impI)
  show "updateSessionStatus now False d uid urole rid ''ended'' notes
           = (Inl (500, ''Server error''), d)"
    using found party by (auto simp: updateSessionStatus_def Let_def)
next
  show "\<exists>vs'. updateSessionStatus now True d uid urole rid ''ended'' notes
                = (Inr vs', d\<lparr>appointments :=
                                 Appointment_markCompleted (appointmentId vs) (appointments d),
                               videoSessions := (videoSessions d)[i := vs']\<rparr>)
              \<and> status vs' = ''ended'' \<and> endTime vs' = Some now"
    using found party
    by (auto simp: updateSessionStatus_def VideoSession_save_status_def Let_def status_enum_def
             split: option.splits)
next
  from findOne_Some [OF found] have rid: "roomId vs = rid" by simp
  have upd: "\<And>v. roomId v = rid \<Longrightarrow>
      findOne (\<lambda>s. roomId s = rid) ((videoSessions d)[i := v]) = Some (i, v)"
    using findOne_update [OF found] by simp
  show "findOne (\<lambda>s. roomId s = rid)
              (videoSessions (snd (updateSessionStatus now True d uid urole rid ''ended'' notes)))
             = Some (i, vs\<lparr>status := ''ended'', endTime := Some now\<rparr>
                          \<lparr>duration := (case startTime vs of None \<Rightarrow> duration vs
                                        | Some t \<Rightarrow> Some ((now - t) div 1000)),
                           therapistNotes := (if \<not> falsy notes \<and> urole = ''therapist''
                                              then notes else therapistNotes vs),
                           patientFeedback := (if \<not> falsy notes \<and> urole \<noteq> ''therapist''
                                               then notes else patientFeedback vs)\<rparr>)"
    using found party rid
    by (auto simp: updateSessionStatus_def VideoSession_save_status_def Let_def status_enum_def
                   upd
             split: option.splits)
next
  fix a
  assume a: "find (\<lambda>a. apt_id a = appointmentId vs) (appointments d) = Some a"
  have "appointments (snd (updateSessionStatus now True d uid urole rid ''ended'' notes))
          = Appointment_markCompleted (appointmentId vs) (appointments d)"
    using found party
    by (auto simp: updateSessionStatus_def VideoSession_save_status_def Let_def status_enum_def
             split: option.splits)
  with Appointment_markCompleted_find [OF a]
  show "find (\<lambda>a. apt_id a = appointmentId vs)
                     (appointments (snd (updateSessionStatus now True d uid urole rid ''ended'' notes)))
                  = Some (a\<lparr>apt_status := ''completed''\<rparr>)"
    by simp
qed

text \<open>
  The patient ends a session that has been active since time 1000, at time 1801000: with
  the appointment update failing, and with it succeeding.
\<close>

theorem updateSessionStatus_ended_appointment_update_witness:
  "findOne (\<lambda>s. roomId s = ''room_1'') (videoSessions (ex_db_session ''active'' (Some 1000)))
     = Some (0, ex_session ''active'' (Some 1000))
   \<and> updateSessionStatus 1801000 False (ex_db_session ''active'' (Some 1000))
        id_p1 ''patient'' ''room_1'' ''ended'' None
       = (Inl (500, ''Server error''), ex_db_session ''active'' (Some 1000))
   \<and> findOne (\<lambda>s. roomId s = ''room_1'')
        (videoSessions (snd (updateSessionStatus 1801000 True (ex_db_session ''active'' (Some 1000))
           id_p1 ''patient'' ''room_1'' ''ended'' None)))
       = Some (0, (ex_session ''ended'' (Some 1000))\<lparr>endTime := Some 1801000, duration := Some 1800\<rparr>)
   \<and> find (\<lambda>a. apt_id a = id_ap1)
        (appointments (snd (updateSessionStatus 1801000 True (ex_db_session ''active'' (Some 1000))
           id_p1 ''patient'' ''room_1'' ''ended'' None)))
       = Some \<lparr>apt_id = id_ap1, apt_patientId = id_p1, apt_therapistId = id_t1,
               apt_sessionType = ''video'', apt_status = ''completed''\<rparr>"
proof -
  let ?d = "ex_db_session ''active'' (Some 1000)"
  let ?vs = "ex_session ''active'' (Some 1000)"
  let ?ap = "\<lparr>apt_id = id_ap1, apt_patientId = id_p1, apt_therapistId = id_t1,
               apt_sessionType = ''video'', apt_status = ''confirmed''\<rparr>"
  have f: "findOne (\<lambda>s. roomId s = ''room_1'') (videoSessions ?d) = Some (0, ?vs)"
    by (simp add: ex_defs)
  have p: "id_p1 = patientId ?vs \<or> id_p1 = therapistId ?vs"
    by (simp add: ex_session_def)
  have a: "find (\<lambda>a. apt_id a = appointmentId ?vs) (appointments ?d) = Some ?ap"
    by (simp add: ex_defs)
  have sel: "appointmentId ?vs = id_ap1" by (simp add: ex_session_def)
  note th = updateSessionStatus_ended_appointment_update
              [OF f p, of 1801000 "''patient''" None]
  from th have 1: "updateSessionStatus 1801000 False ?d id_p1 ''patient'' ''room_1'' ''ended'' None
       = (Inl (500, ''Server error''), ?d)"
    by (rule conjunct1)
  from th have "findOne (\<lambda>s. roomId s = ''room_1'')
        (videoSessions (snd (updateSessionStatus 1801000 True ?d id_p1 ''patient'' ''room_1''
           ''ended'' None)))
       = Some (0, ?vs\<lparr>status := ''ended'', endTime := Some 1801000\<rparr>
                          \<lparr>duration := (case startTime ?vs of None \<Rightarrow> duration ?vs
                                        | Some t \<Rightarrow> Some ((1801000 - t) div 1000)),
                           therapistNotes := (if \<not> falsy None \<and> ''patient'' = ''therapist''
                                              then None else therapistNotes ?vs),
                           patientFeedback := (if \<not> falsy None \<and> ''patient'' \<noteq> ''therapist''
                                               then None else patientFeedback ?vs)\<rparr>)"
    by (elim conjE)
  then have 2: "findOne (\<lambda>s. roomId s = ''room_1'')
        (videoSessions (snd (updateSessionStatus 1801000 True ?d id_p1 ''patient'' ''room_1''
           ''ended'' None)))
       = Some (0, (ex_session ''ended'' (Some 1000))\<lparr>endTime := Some 1801000, duration := Some 1800\<rparr>)"
    by (simp add: ex_session_def falsy_def)
  from th a have "find (\<lambda>a. apt_id a = appointmentId ?vs)
        (appointments (snd (updateSessionStatus 1801000 True ?d id_p1 ''patient'' ''room_1''
           ''ended'' None)))
       = Some (?ap\<lparr>apt_status := ''completed''\<rparr>)"
    by blast
  then have 3: "find (\<lambda>a. apt_id a = id_ap1)
        (appointments (snd (updateSessionStatus 1801000 True ?d id_p1 ''patient'' ''room_1''
           ''ended'' None)))
       = Some \<lparr>apt_id = id_ap1, apt_patientId = id_p1, apt_therapistId = id_t1,
               apt_sessionType = ''video'', apt_status = ''completed''\<rparr>"
    by (simp add: sel)
  from f 1 2 3 show ?thesis by (intro conjI)
qed

text \<open>
  C2 as stated fails: with the appointment update failing, the stored session is still
  \<open>active\<close> after the call, and the answer is the generic 500.
\<close>

theorem ended_commit_counterexample:
  "snd (updateSessionStatus 1801000 False (ex_db_session ''active'' (Some 1000))
          id_p1 ''patient'' ''room_1'' ''ended'' None)
     = ex_db_session ''active'' (Some 1000)
   \<and> map status (videoSessions (snd (updateSessionStatus 1801000 False
          (ex_db_session ''active'' (Some 1000)) id_p1 ''patient'' ''room_1'' ''ended'' None)))
     = [''active'']
   \<and> fst (updateSessionStatus 1801000 False (ex_db_session ''active'' (Some 1000))
          id_p1 ''patient'' ''room_1'' ''ended'' None) = Inl (500, ''Server error'')"
  by (simp add: ex_defs updateSessionStatus_def)

section \<open>Creating and joining: basic facts\<close>

lemma find_userId_iff: "find (\<lambda>p. userId p = uid) ps = None \<longleftrightarrow> uid \<notin> userId ` set ps"
  by (auto simp: find_None_iff)

lemma addParticipant_post:
  assumes i: "i < length (videoSessions d)" and vs: "videoSessions d ! i = vs"
    and ok: "addParticipant now d i vs uid = (res, d')"
  shows "\<exists>ps. res = Inr \<lparr>si_roomId = roomId vs, si_sessionId = vs_id vs, si_status = status vs,
                          si_participants = length ps\<rparr>
           \<and> d' = d\<lparr>videoSessions := (videoSessions d)[i := vs\<lparr>participants := ps\<rparr>]\<rparr>
           \<and> uid \<in> userId ` set ps
           \<and> (uid \<in> userId ` set (participants vs) \<longrightarrow> ps = participants vs \<and> d' = d)
           \<and> (uid \<notin> userId ` set (participants vs) \<longrightarrow>
                ps = participants vs @ [\<lparr>userId = uid, joinedAt = Some now, leftAt = None\<rparr>])"
proof (cases "find (\<lambda>p. userId p = uid) (participants vs)")
  case None
  then have notin: "uid \<notin> userId ` set (participants vs)" by (simp add: find_userId_iff)
  let ?ps = "participants vs @ [\<lparr>userId = uid, joinedAt = Some now, leftAt = None\<rparr>]"
  from None ok have "res = Inr \<lparr>si_roomId = roomId vs, si_sessionId = vs_id vs, si_status = status vs,
                          si_participants = length ?ps\<rparr>"
    and "d' = d\<lparr>videoSessions := (videoSessions d)[i := vs\<lparr>participants := ?ps\<rparr>]\<rparr>"
    by (auto simp: addParticipant_def Let_def)
  with notin show ?thesis
    by (intro exI [of _ ?ps]) simp
next
  case (Some p)
  then have isin: "uid \<in> userId ` set (participants vs)"
    using find_userId_iff [of uid "participants vs"] by auto
  from Some ok have r: "res = Inr \<lparr>si_roomId = roomId vs, si_sessionId = vs_id vs, si_status = status vs,
                          si_participants = length (participants vs)\<rparr>" and d: "d' = d"
    by (auto simp: addParticipant_def)
  have "(videoSessions d)[i := vs] = videoSessions d"
    using vs by (metis list_update_id)
  then have "d = d\<lparr>videoSessions := (videoSessions d)[i := vs\<lparr>participants := participants vs\<rparr>]\<rparr>"
    by simp
  with r d isin show ?thesis
    by (intro exI [of _ "participants vs"]) simp
qed

lemma list_all_update: "list_all P xs \<Longrightarrow> P y \<Longrightarrow> list_all P (xs[i := y])"
  by (auto simp: list_all_iff dest: set_update_subset_insert [THEN subsetD])

lemma map_userId_refresh:
  "k < length ps \<Longrightarrow> map userId (ps[k := (ps ! k)\<lparr>joinedAt := t\<rparr>]) = map userId ps"
  by (simp add: map_update list_update_same_conv)

lemma addParticipant_distinct:
  assumes "sessions_distinct d" and "distinct (map userId (participants vs))"
  shows "sessions_distinct (snd (addParticipant now d i vs uid))"
proof (cases "find (\<lambda>p. userId p = uid) (participants vs)")
  case None
  then have "uid \<notin> userId ` set (participants vs)" by (simp add: find_userId_iff)
  with assms None show ?thesis
    by (auto simp: addParticipant_def sessions_distinct_def Let_def intro!: list_all_update)
next
  case (Some p)
  with assms show ?thesis by (simp add: addParticipant_def)
qed

lemma joinVideoSession_distinct:
  assumes inv: "sessions_distinct d"
  shows "sessions_distinct (snd (joinVideoSession now d uid rid))"
proof (cases "findOne (\<lambda>s. roomId s = rid) (videoSessions d)")
  case None
  with inv show ?thesis by (simp add: joinVideoSession_def)
next
  case (Some r)
  obtain i vs where r: "r = (i, vs)" by (cases r)
  from findOne_Some [OF Some [unfolded r]] have i: "i < length (videoSessions d)"
    and v: "videoSessions d ! i = vs" by simp_all
  from inv i v have dist: "distinct (map userId (participants vs))"
    by (auto simp: sessions_distinct_def list_all_length)
  show ?thesis
  proof (cases "findIndex (\<lambda>p. userId p = uid) (participants vs)")
    case None
    then have "uid \<notin> userId ` set (participants vs)" by (auto simp: findIndex_None)
    with inv dist None Some r show ?thesis
      by (auto simp: joinVideoSession_def sessions_distinct_def Let_def intro!: list_all_update)
  next
    case (Some k)
    from findIndex_Some [OF Some] have k: "k < length (participants vs)" by simp
    from inv dist Some \<open>findOne (\<lambda>s. roomId s = rid) (videoSessions d) = Some r\<close> r
      map_userId_refresh [OF k]
    show ?thesis
      by (auto simp: joinVideoSession_def sessions_distinct_def Let_def intro!: list_all_update)
  qed
qed

lemma addParticipant_not_Inl: "addParticipant now d i vs uid \<noteq> (Inl e, d')"
  by (simp add: addParticipant_def Let_def split: option.splits)

lemma castObjectId_nonempty: "castObjectId s = Some k \<Longrightarrow> s \<noteq> []"
  by (auto simp: castObjectId_def split: if_splits)

lemma VideoSession_save_new_no_room: "roomId vs = [] \<Longrightarrow> VideoSession_save_new r d vs = None"
  by (simp add: VideoSession_save_new_def videoSession_valid_def)

text \<open>
  What \<^const>\<open>createVideoSession\<close> does once the id has been cast and the appointment found
  with both of its users.
\<close>

lemma createVideoSession_found:
  assumes k: "castObjectId aid = Some k"
    and apt: "find (\<lambda>a. apt_id a = k) (appointments d) = Some apt"
    and p: "populate_user d (apt_patientId apt) = Some p"
    and t: "populate_user d (apt_therapistId apt) = Some t"
  shows "createVideoSession now g r d uid (Some aid) =
     (if apt_patientId apt \<noteq> uid \<and> apt_therapistId apt \<noteq> uid
      then (Inl (403, ''Access denied''), d)
      else if apt_status apt \<noteq> ''confirmed''
      then (Inl (400, ''Appointment must be confirmed to start video session''), d)
      else (case findOne (\<lambda>s. appointmentId s = k) (videoSessions d) of
              Some (i, vs) \<Rightarrow> addParticipant now d i vs uid
            | None \<Rightarrow> (Inl (500, ''Server error''), d)))"
proof -
  from castObjectId_nonempty [OF k] have ne: "aid \<noteq> []" .
  have af: "Appointment_findById d aid = Returns (Some apt)"
    using k apt by (simp add: Appointment_findById_def)
  have vf: "VideoSession_findOne_appointment d aid
              = Returns (findOne (\<lambda>s. appointmentId s = k) (videoSessions d))"
    using k by (simp add: VideoSession_findOne_appointment_def)
  from populate_user_Some [OF p] populate_user_Some [OF t]
  have ids: "user_id p = apt_patientId apt" "user_id t = apt_therapistId apt" by simp_all
  show ?thesis
    unfolding createVideoSession_def
    using ne af vf p t ids
    by (simp add: VideoSession_save_new_no_room split: option.splits)
qed

lemma createVideoSession_cases:
  "(\<exists>e. createVideoSession now g r d uid aid_opt = (Inl e, d))
   \<or> (\<exists>aid k apt i vs. aid_opt = Some aid \<and> castObjectId aid = Some k
         \<and> find (\<lambda>a. apt_id a = k) (appointments d) = Some apt
         \<and> apt_status apt = ''confirmed''
         \<and> (uid = apt_patientId apt \<or> uid = apt_therapistId apt)
         \<and> findOne (\<lambda>s. appointmentId s = k) (videoSessions d) = Some (i, vs)
         \<and> createVideoSession now g r d uid aid_opt = addParticipant now d i vs uid)"
proof (cases aid_opt)
  case None
  then show ?thesis by (simp add: createVideoSession_def)
next
  case (Some aid)
  show ?thesis
  proof (cases "castObjectId aid")
    case None
    with Some show ?thesis
      by (simp add: createVideoSession_def Appointment_findById_def)
  next
    case k: (Some k)
    show ?thesis
    proof (cases "find (\<lambda>a. apt_id a = k) (appointments d)")
      case None
      with Some k show ?thesis
        by (simp add: createVideoSession_def Appointment_findById_def)
    next
      case apt: (Some apt)
      show ?thesis
      proof (cases "populate_user d (apt_patientId apt)")
        case None
        with Some k apt show ?thesis
          by (simp add: createVideoSession_def Appointment_findById_def)
      next
        case p: (Some p)
        show ?thesis
        proof (cases "populate_user d (apt_therapistId apt)")
          case None
          with Some k apt p show ?thesis
            by (simp add: createVideoSession_def Appointment_findById_def)
        next
          case t: (Some t)
          note eq = createVideoSession_found [OF k apt p t, of now g r uid]
          show ?thesis
          proof (cases "findOne (\<lambda>s. appointmentId s = k) (videoSessions d)")
            case None
            with eq Some show ?thesis by simp
          next
            case f: (Some iv)
            obtain i vs where iv: "iv = (i, vs)" by (cases iv)
            show ?thesis
            proof (cases "(apt_patientId apt \<noteq> uid \<and> apt_therapistId apt \<noteq> uid)
                          \<or> apt_status apt \<noteq> ''confirmed''")
              case True
              with eq Some show ?thesis by auto
            next
              case False
              with eq f iv have "createVideoSession now g r d uid (Some aid)
                                   = addParticipant now d i vs uid" by auto
              with False Some k apt f iv show ?thesis by auto
            qed
          qed
        qed
      qed
    qed
  qed
qed

lemma createVideoSession_Inl:
  assumes "createVideoSession now g r d uid aid_opt = (Inl e, d')"
  shows "d' = d"
  using createVideoSession_cases [of now g r d uid aid_opt] assms
  by (metis addParticipant_not_Inl prod.inject)

lemma createVideoSession_Inr:
  assumes ok: "createVideoSession now g r d uid aid_opt = (Inr info, d')"
  shows "\<exists>aid k apt i vs. aid_opt = Some aid \<and> castObjectId aid = Some k
         \<and> find (\<lambda>a. apt_id a = k) (appointments d) = Some apt
         \<and> apt_status apt = ''confirmed''
         \<and> (uid = apt_patientId apt \<or> uid = apt_therapistId apt)
         \<and> findOne (\<lambda>s. appointmentId s = k) (videoSessions d) = Some (i, vs)
         \<and> addParticipant now d i vs uid = (Inr info, d')"
  using createVideoSession_cases [of now g r d uid aid_opt] ok by auto

lemma createVideoSession_distinct:
  assumes inv: "sessions_distinct d"
  shows "sessions_distinct (snd (createVideoSession now g r d uid aid_opt))"
proof (cases "createVideoSession now g r d uid aid_opt")
  case (Pair res d')
  show ?thesis
  proof (cases res)
    case (Inl e)
    from createVideoSession_Inl [OF Pair [unfolded Inl]] Pair inv show ?thesis by simp
  next
    case (Inr info)
    from createVideoSession_Inr [OF Pair [unfolded Inr]] obtain k i vs where
      f: "findOne (\<lambda>s. appointmentId s = k) (videoSessions d) = Some (i, vs)"
      and a: "addParticipant now d i vs uid = (Inr info, d')" by blast
    from findOne_Some [OF f] inv have "distinct (map userId (participants vs))"
      by (auto simp: sessions_distinct_def list_all_length)
    from addParticipant_distinct [OF inv this, of now i uid] a Pair show ?thesis by simp
  qed
qed

lemmas create_eval = createVideoSession_def Appointment_findById_def populate_user_def
  VideoSession_findOne_appointment_def VideoSession_save_new_def videoSession_valid_def
  addParticipant_def asObjectId_def Let_def cast_defs

section \<open>Creating a session\<close>

text \<open>
  C3, as amended. \<^const>\<open>createVideoSession\<close> creates nothing and answers: 500 when the
  appointment id is no ObjectId; 404 when it matches no appointment; 403 when the caller is
  neither the patient nor the therapist of the appointment; 400 when the caller is one of
  them and the appointment is not confirmed. Whoever calls, an unconfirmed appointment
  gives an error and an unchanged database. A session is returned only for an existing,
  confirmed appointment of which the caller is the patient or the therapist.
  (The session type of the appointment is not part of this statement.)
\<close>

theorem createVideoSession_preconditions:
  "(aid \<noteq> [] \<and> castObjectId aid = None
      \<longrightarrow> createVideoSession now g r d uid (Some aid) = (Inl (500, ''Server error''), d))
   \<and> (castObjectId aid = Some k \<and> find (\<lambda>a. apt_id a = k) (appointments d) = None
      \<longrightarrow> createVideoSession now g r d uid (Some aid) = (Inl (404, ''Appointment not found''), d))
   \<and> (castObjectId aid = Some k \<and> find (\<lambda>a. apt_id a = k) (appointments d) = Some apt
       \<and> populate_user d (apt_patientId apt) \<noteq> None
       \<and> populate_user d (apt_therapistId apt) \<noteq> None
       \<and> uid \<noteq> apt_patientId apt \<and> uid \<noteq> apt_therapistId apt
      \<longrightarrow> createVideoSession now g r d uid (Some aid) = (Inl (403, ''Access denied''), d))
   \<and> (castObjectId aid = Some k \<and> find (\<lambda>a. apt_id a = k) (appointments d) = Some apt
       \<and> populate_user d (apt_patientId apt) \<noteq> None
       \<and> populate_user d (apt_therapistId apt) \<noteq> None
       \<and> (uid = apt_patientId apt \<or> uid = apt_therapistId apt)
       \<and> apt_status apt \<noteq> ''confirmed''
      \<longrightarrow> createVideoSession now g r d uid (Some aid)
            = (Inl (400, ''Appointment must be confirmed to start video session''), d))
   \<and> (castObjectId aid = Some k \<and> find (\<lambda>a. apt_id a = k) (appointments d) = Some apt
       \<and> apt_status apt \<noteq> ''confirmed''
      \<longrightarrow> (\<exists>e. createVideoSession now g r d uid (Some aid) = (Inl e, d)))
   \<and> (createVideoSession now g r d uid (Some aid) = (Inr info, d')
      \<longrightarrow> (\<exists>k a. castObjectId aid = Some k
               \<and> find (\<lambda>a. apt_id a = k) (appointments d) = Some a
               \<and> apt_status a = ''confirmed''
               \<and> (uid = apt_patientId a \<or> uid = apt_therapistId a)))"
proof (intro conjI impI)
  assume "aid \<noteq> [] \<and> castObjectId aid = None"
  then show "createVideoSession now g r d uid (Some aid) = (Inl (500, ''Server error''), d)"
    by (simp add: createVideoSession_def Appointment_findById_def)
next
  assume a: "castObjectId aid = Some k \<and> find (\<lambda>a. apt_id a = k) (appointments d) = None"
  then have "aid \<noteq> []" by (simp add: castObjectId_nonempty)
  with a show "createVideoSession now g r d uid (Some aid)
                 = (Inl (404, ''Appointment not found''), d)"
    by (simp add: createVideoSession_def Appointment_findById_def)
next
  assume a: "castObjectId aid = Some k \<and> find (\<lambda>a. apt_id a = k) (appointments d) = Some apt
       \<and> populate_user d (apt_patientId apt) \<noteq> None
       \<and> populate_user d (apt_therapistId apt) \<noteq> None
       \<and> uid \<noteq> apt_patientId apt \<and> uid \<noteq> apt_therapistId apt"
  then obtain p t where p: "populate_user d (apt_patientId apt) = Some p"
    and t: "populate_user d (apt_therapistId apt) = Some t" by auto
  from a have k: "castObjectId aid = Some k"
    and f: "find (\<lambda>a. apt_id a = k) (appointments d) = Some apt" by simp_all
  from createVideoSession_found [OF k f p t, of now g r uid] a
  show "createVideoSession now g r d uid (Some aid) = (Inl (403, ''Access denied''), d)"
    by auto
next
  assume a: "castObjectId aid = Some k \<and> find (\<lambda>a. apt_id a = k) (appointments d) = Some apt
       \<and> populate_user d (apt_patientId apt) \<noteq> None
       \<and> populate_user d (apt_therapistId apt) \<noteq> None
       \<and> (uid = apt_patientId apt \<or> uid = apt_therapistId apt)
       \<and> apt_status apt \<noteq> ''confirmed''"
  then obtain p t where p: "populate_user d (apt_patientId apt) = Some p"
    and t: "populate_user d (apt_therapistId apt) = Some t" by auto
  from a have k: "castObjectId aid = Some k"
    and f: "find (\<lambda>a. apt_id a = k) (appointments d) = Some apt" by simp_all
  from createVideoSession_found [OF k f p t, of now g r uid] a
  show "createVideoSession now g r d uid (Some aid)
            = (Inl (400, ''Appointment must be confirmed to start video session''), d)"
    by auto
next
  assume a: "castObjectId aid = Some k \<and> find (\<lambda>a. apt_id a = k) (appointments d) = Some apt
       \<and> apt_status apt \<noteq> ''confirmed''"
  from createVideoSession_cases [of now g r d uid "Some aid"] a
  show "\<exists>e. createVideoSession now g r d uid (Some aid) = (Inl e, d)" by auto
next
  assume ok: "createVideoSession now g r d uid (Some aid) = (Inr info, d')"
  from createVideoSession_Inr [OF ok]
  show "\<exists>k a. castObjectId aid = Some k
               \<and> find (\<lambda>a. apt_id a = k) (appointments d) = Some a
               \<and> apt_status a = ''confirmed''
               \<and> (uid = apt_patientId a \<or> uid = apt_therapistId a)" by auto
qed

text \<open>
  On the example data: an appointment id that is no ObjectId; the id of no appointment; the
  unconfirmed appointment asked for by the second patient and by its therapist; and the
  confirmed appointment, whose session is stored, asked for by its therapist.
\<close>

theorem createVideoSession_preconditions_witness:
  "createVideoSession 2000 id_vs2 ''room_2'' ex_db id_p1 (Some ''ap9'')
     = (Inl (500, ''Server error''), ex_db)
   \<and> createVideoSession 2000 id_vs2 ''room_2'' ex_db id_p1 (Some id_ap9)
     = (Inl (404, ''Appointment not found''), ex_db)
   \<and> createVideoSession 2000 id_vs2 ''room_2'' ex_db id_p2 (Some id_ap3)
     = (Inl (403, ''Access denied''), ex_db)
   \<and> createVideoSession 2000 id_vs2 ''room_2'' ex_db id_t1 (Some id_ap3)
     = (Inl (400, ''Appointment must be confirmed to start video session''), ex_db)
   \<and> (\<exists>e. createVideoSession 2000 id_vs2 ''room_2'' ex_db id_p1 (Some id_ap3) = (Inl e, ex_db))
   \<and> createVideoSession 2000 id_vs2 ''room_2'' (ex_db_session ''waiting'' None) id_t1 (Some id_ap1)
     = (Inr \<lparr>si_roomId = ''room_1'', si_sessionId = id_vs1, si_status = ''waiting'',
             si_participants = 2\<rparr>, ex_db\<lparr>videoSessions := [ex_session_both]\<rparr>)
   \<and> (\<exists>k a. castObjectId id_ap1 = Some k
          \<and> find (\<lambda>a. apt_id a = k) (appointments (ex_db_session ''waiting'' None)) = Some a
          \<and> apt_status a = ''confirmed''
          \<and> (id_t1 = apt_patientId a \<or> id_t1 = apt_therapistId a))"
proof -
  let ?ap3 = "\<lparr>apt_id = id_ap3, apt_patientId = id_p1, apt_therapistId = id_t1,
          apt_sessionType = ''video'', apt_status = ''pending_confirmation''\<rparr>"
  have bad: "''ap9'' \<noteq> [] \<and> castObjectId ''ap9'' = None"
    by (simp add: castObjectId_def)
  have none: "castObjectId id_ap9 = Some id_ap9
              \<and> find (\<lambda>a. apt_id a = id_ap9) (appointments ex_db) = None"
    by (simp add: cast_example_ids) (simp add: ex_defs)
  have ap3: "castObjectId id_ap3 = Some id_ap3
             \<and> find (\<lambda>a. apt_id a = id_ap3) (appointments ex_db) = Some ?ap3"
    by (simp add: cast_example_ids) (simp add: ex_defs)
  have users: "populate_user ex_db (apt_patientId ?ap3) \<noteq> None
               \<and> populate_user ex_db (apt_therapistId ?ap3) \<noteq> None"
    by (simp add: populate_user_def ex_defs)
  have third: "id_p2 \<noteq> apt_patientId ?ap3 \<and> id_p2 \<noteq> apt_therapistId ?ap3"
    by (simp add: id_defs)
  have party: "id_t1 = apt_patientId ?ap3 \<or> id_t1 = apt_therapistId ?ap3" by simp
  have unconf: "apt_status ?ap3 \<noteq> ''confirmed''" by simp
  have ok: "createVideoSession 2000 id_vs2 ''room_2'' (ex_db_session ''waiting'' None) id_t1
              (Some id_ap1)
     = (Inr \<lparr>si_roomId = ''room_1'', si_sessionId = id_vs1, si_status = ''waiting'',
             si_participants = 2\<rparr>, ex_db\<lparr>videoSessions := [ex_session_both]\<rparr>)"
    by (simp add: ex_defs ex_session_both_def create_eval)
  from createVideoSession_preconditions
         [where aid = "''ap9''" and d = ex_db and now = 2000 and g = id_vs2
            and r = "''room_2''" and uid = id_p1] bad
  have 1: "createVideoSession 2000 id_vs2 ''room_2'' ex_db id_p1 (Some ''ap9'')
     = (Inl (500, ''Server error''), ex_db)" by blast
  from createVideoSession_preconditions
         [where aid = id_ap9 and k = id_ap9 and d = ex_db and now = 2000 and g = id_vs2
            and r = "''room_2''" and uid = id_p1] none
  have 2: "createVideoSession 2000 id_vs2 ''room_2'' ex_db id_p1 (Some id_ap9)
     = (Inl (404, ''Appointment not found''), ex_db)" by blast
  from createVideoSession_preconditions
         [where aid = id_ap3 and k = id_ap3 and apt = ?ap3 and d = ex_db and now = 2000
            and g = id_vs2 and r = "''room_2''" and uid = id_p2] ap3 users third
  have 3: "createVideoSession 2000 id_vs2 ''room_2'' ex_db id_p2 (Some id_ap3)
     = (Inl (403, ''Access denied''), ex_db)" by blast
  from createVideoSession_preconditions
         [where aid = id_ap3 and k = id_ap3 and apt = ?ap3 and d = ex_db and now = 2000
            and g = id_vs2 and r = "''room_2''" and uid = id_t1] ap3 users party unconf
  have 4: "createVideoSession 2000 id_vs2 ''room_2'' ex_db id_t1 (Some id_ap3)
     = (Inl (400, ''Appointment must be confirmed to start video session''), ex_db)" by blast
  from createVideoSession_preconditions
         [where aid = id_ap3 and k = id_ap3 and apt = ?ap3 and d = ex_db and now = 2000
            and g = id_vs2 and r = "''room_2''" and uid = id_p1] ap3 unconf
  have 5: "\<exists>e. createVideoSession 2000 id_vs2 ''room_2'' ex_db id_p1 (Some id_ap3) = (Inl e, ex_db)"
    by blast
  from createVideoSession_preconditions
         [where aid = id_ap1 and d = "ex_db_session ''waiting'' None" and now = 2000
            and g = id_vs2 and r = "''room_2''" and uid = id_t1] ok
  have 6: "\<exists>k a. castObjectId id_ap1 = Some k
          \<and> find (\<lambda>a. apt_id a = k) (appointments (ex_db_session ''waiting'' None)) = Some a
          \<and> apt_status a = ''confirmed''
          \<and> (id_t1 = apt_patientId a \<or> id_t1 = apt_therapistId a)" by blast
  from 1 2 3 4 5 ok 6 show ?thesis by (intro conjI)
qed

text \<open>
  C3 as stated fails: a well-formed id of no appointment is answered 404
  \<open>Appointment not found\<close>, and an unconfirmed appointment asked for by a patient who is
  not a party to it is answered 403, not the 400 of the failed precondition.
\<close>

theorem missing_appointment_counterexample:
  "createVideoSession 2000 id_vs2 ''room_2'' ex_db id_p1 (Some id_ap9)
     = (Inl (404, ''Appointment not found''), ex_db)
   \<and> createVideoSession 2000 id_vs2 ''room_2'' ex_db id_p2 (Some id_ap3)
     = (Inl (403, ''Access denied''), ex_db)"
  by (simp add: ex_defs create_eval)

text \<open>
  The session type is not looked at: for a confirmed phone appointment the checks pass as
  for a video one, and a session stored for it is joined.
  (\<^verbatim>\<open>updateAppointmentStatus\<close> of the appointment controller asks for
  \<^verbatim>\<open>sessionType === 'video'\<close> before it creates a session.)
\<close>

lemma createVideoSession_phone_appointment:
  "createVideoSession 2000 id_vs2 ''room_2''
     (ex_db\<lparr>videoSessions := [(ex_session ''waiting'' None)\<lparr>appointmentId := id_ap2\<rparr>]\<rparr>)
     id_p1 (Some id_ap2)
   = (Inr \<lparr>si_roomId = ''room_1'', si_sessionId = id_vs1, si_status = ''waiting'',
           si_participants = 1\<rparr>,
      ex_db\<lparr>videoSessions := [(ex_session ''waiting'' None)\<lparr>appointmentId := id_ap2\<rparr>]\<rparr>)"
  by (simp add: ex_defs create_eval)

text \<open>
  A session that is not stored yet is never created: the new document has no room id when
  the validators run, so the save is rejected and the answer is 500.
\<close>

lemma createVideoSession_new_session_rejected:
  "createVideoSession 2000 id_vs2 ''room_2'' ex_db id_p1 (Some id_ap1)
     = (Inl (500, ''Server error''), ex_db)"
  by (simp add: ex_defs create_eval)




section \<open>Participants\<close>

text \<open>
  C9, as amended. \<^const>\<open>joinVideoSession\<close> by a user who already has a participant entry
  sets that entry's \<open>joinedAt\<close> to the current time and appends nothing.
  \<^const>\<open>createVideoSession\<close> by a user who already has an entry in the appointment's
  session leaves the database as it is: the entry is kept, its \<open>joinedAt\<close> is not
  refreshed. Both handlers preserve that no session lists a user twice.
\<close>

theorem rejoin_participant_entry:
  "(findOne (\<lambda>s. roomId s = rid) (videoSessions d) = Some (i, vs)
      \<and> (uid = patientId vs \<or> uid = therapistId vs)
      \<and> findIndex (\<lambda>p. userId p = uid) (participants vs) = Some k
    \<longrightarrow> joinVideoSession now d uid rid
          = (Inr \<lparr>ji_roomId = roomId vs, ji_status = status vs,
                  ji_participants = length (participants vs)\<rparr>,
             d\<lparr>videoSessions := (videoSessions d)
                  [i := vs\<lparr>participants :=
                            (participants vs)[k := (participants vs ! k)\<lparr>joinedAt := Some now\<rparr>]\<rparr>]\<rparr>)
        \<and> k < length (participants vs) \<and> userId (participants vs ! k) = uid)
   \<and> (castObjectId aid = Some c
      \<and> findOne (\<lambda>s. appointmentId s = c) (videoSessions d) = Some (j, ws)
      \<and> uid \<in> userId ` set (participants ws)
    \<longrightarrow> snd (createVideoSession now g r d uid (Some aid)) = d)
   \<and> (castObjectId aid = None \<longrightarrow> snd (createVideoSession now g r d uid (Some aid)) = d)
   \<and> (sessions_distinct d
    \<longrightarrow> sessions_distinct (snd (joinVideoSession now d uid rid))
        \<and> sessions_distinct (snd (createVideoSession now g r d uid aid_opt)))"
proof (intro conjI impI)
  assume a: "findOne (\<lambda>s. roomId s = rid) (videoSessions d) = Some (i, vs)
      \<and> (uid = patientId vs \<or> uid = therapistId vs)
      \<and> findIndex (\<lambda>p. userId p = uid) (participants vs) = Some k"
  then show "joinVideoSession now d uid rid
          = (Inr \<lparr>ji_roomId = roomId vs, ji_status = status vs,
                  ji_participants = length (participants vs)\<rparr>,
             d\<lparr>videoSessions := (videoSessions d)
                  [i := vs\<lparr>participants :=
                            (participants vs)[k := (participants vs ! k)\<lparr>joinedAt := Some now\<rparr>]\<rparr>]\<rparr>)"
    by (auto simp: joinVideoSession_def Let_def)
  from a findIndex_Some [of "\<lambda>p. userId p = uid" "participants vs" k]
  show "k < length (participants vs)" and "userId (participants vs ! k) = uid" by simp_all
next
  assume a: "castObjectId aid = Some c
      \<and> findOne (\<lambda>s. appointmentId s = c) (videoSessions d) = Some (j, ws)
      \<and> uid \<in> userId ` set (participants ws)"
  then have c: "castObjectId aid = Some c"
    and f: "findOne (\<lambda>s. appointmentId s = c) (videoSessions d) = Some (j, ws)"
    and isin: "uid \<in> userId ` set (participants ws)" by simp_all
  show "snd (createVideoSession now g r d uid (Some aid)) = d"
  proof (cases "createVideoSession now g r d uid (Some aid)")
    case (Pair res d')
    show ?thesis
    proof (cases res)
      case (Inl e)
      from createVideoSession_Inl [OF Pair [unfolded Inl]] Pair show ?thesis by simp
    next
      case (Inr info)
      from createVideoSession_Inr [OF Pair [unfolded Inr]] c f
      have ap: "addParticipant now d j ws uid = (Inr info, d')" by auto
      from findOne_Some [OF f] have "j < length (videoSessions d)" "videoSessions d ! j = ws"
        by simp_all
      from addParticipant_post [OF this ap] isin Pair show ?thesis by auto
    qed
  qed
next
  assume "castObjectId aid = None"
  then show "snd (createVideoSession now g r d uid (Some aid)) = d"
    by (simp add: createVideoSession_def Appointment_findById_def)
next
  assume "sessions_distinct d"
  then show "sessions_distinct (snd (joinVideoSession now d uid rid))"
    by (rule joinVideoSession_distinct)
next
  assume "sessions_distinct d"
  then show "sessions_distinct (snd (createVideoSession now g r d uid aid_opt))"
    by (rule createVideoSession_distinct)
qed

text \<open>
  The patient joins again at time 5000, and asks to create the session again; a malformed
  appointment id changes nothing; the therapist joins or creates for the first time.
\<close>

theorem rejoin_participant_entry_witness:
  "joinVideoSession 5000 (ex_db_session ''waiting'' None) id_p1 ''room_1''
     = (Inr \<lparr>ji_roomId = ''room_1'', ji_status = ''waiting'', ji_participants = 1\<rparr>,
        ex_db\<lparr>videoSessions :=
          [(ex_session ''waiting'' None)\<lparr>participants :=
              [\<lparr>userId = id_p1, joinedAt = Some 5000, leftAt = None\<rparr>]\<rparr>]\<rparr>)
   \<and> snd (createVideoSession 5000 id_vs2 ''room_2'' (ex_db_session ''waiting'' None) id_p1
            (Some id_ap1)) = ex_db_session ''waiting'' None
   \<and> snd (createVideoSession 5000 id_vs2 ''room_2'' (ex_db_session ''waiting'' None) id_p1
            (Some ''ap9'')) = ex_db_session ''waiting'' None
   \<and> sessions_distinct (ex_db_session ''waiting'' None)
   \<and> sessions_distinct (snd (joinVideoSession 5000 (ex_db_session ''waiting'' None) id_t1 ''room_1''))
   \<and> sessions_distinct (snd (createVideoSession 5000 id_vs2 ''room_2''
          (ex_db_session ''waiting'' None) id_t1 (Some id_ap1)))"
proof -
  let ?d = "ex_db_session ''waiting'' None"
  let ?vs = "ex_session ''waiting'' None"
  have a: "findOne (\<lambda>s. roomId s = ''room_1'') (videoSessions ?d) = Some (0, ?vs)
      \<and> (id_p1 = patientId ?vs \<or> id_p1 = therapistId ?vs)
      \<and> findIndex (\<lambda>p. userId p = id_p1) (participants ?vs) = Some 0"
    by (simp add: ex_db_session_def ex_session_def)
  have b: "castObjectId id_ap1 = Some id_ap1
      \<and> findOne (\<lambda>s. appointmentId s = id_ap1) (videoSessions ?d) = Some (0, ?vs)
      \<and> id_p1 \<in> userId ` set (participants ?vs)"
    by (simp add: cast_example_ids ex_db_session_def ex_session_def)
  have bad: "castObjectId ''ap9'' = None" by (simp add: castObjectId_def)
  have c: "sessions_distinct ?d"
    by (simp add: ex_db_session_def ex_session_def sessions_distinct_def)
  from rejoin_participant_entry
         [where rid = "''room_1''" and d = ?d and i = 0 and vs = ?vs and uid = id_p1
            and k = 0 and now = 5000 and aid = id_ap1 and c = id_ap1 and j = 0 and ws = ?vs
            and g = id_vs2 and r = "''room_2''"] a b
  have 1: "joinVideoSession 5000 ?d id_p1 ''room_1''
     = (Inr \<lparr>ji_roomId = ''room_1'', ji_status = ''waiting'', ji_participants = 1\<rparr>,
        ex_db\<lparr>videoSessions :=
          [(ex_session ''waiting'' None)\<lparr>participants :=
              [\<lparr>userId = id_p1, joinedAt = Some 5000, leftAt = None\<rparr>]\<rparr>]\<rparr>)"
    and 2: "snd (createVideoSession 5000 id_vs2 ''room_2'' ?d id_p1 (Some id_ap1)) = ?d"
    by (simp_all add: ex_db_session_def ex_session_def)
  from rejoin_participant_entry
         [where d = ?d and now = 5000 and uid = id_p1 and aid = "''ap9''"
            and g = id_vs2 and r = "''room_2''"] bad
  have 3: "snd (createVideoSession 5000 id_vs2 ''room_2'' ?d id_p1 (Some ''ap9'')) = ?d"
    by blast
  from rejoin_participant_entry
         [where d = ?d and now = 5000 and uid = id_t1 and rid = "''room_1''"
            and g = id_vs2 and r = "''room_2''" and aid_opt = "Some id_ap1"] c
  have 4: "sessions_distinct (snd (joinVideoSession 5000 ?d id_t1 ''room_1''))"
    and 5: "sessions_distinct (snd (createVideoSession 5000 id_vs2 ''room_2'' ?d id_t1 (Some id_ap1)))"
    by blast+
  from 1 2 3 c 4 5 show ?thesis by (intro conjI)
qed

text \<open>
  C9 as stated fails for the create-or-join path: the patient, who joined at time 1000,
  calls \<^const>\<open>createVideoSession\<close> at time 5000, and \<open>joinedAt\<close> is still 1000.
\<close>

theorem create_again_joinedAt_counterexample:
  "map (\<lambda>s. map joinedAt (participants s)) (videoSessions (ex_db_session ''waiting'' None))
     = [[Some 1000]]
   \<and> map (\<lambda>s. map joinedAt (participants s))
       (videoSessions (snd (createVideoSession 5000 id_vs2 ''room_2''
          (ex_db_session ''waiting'' None) id_p1 (Some id_ap1))))
     = [[Some 1000]]"
  by (simp add: ex_defs create_eval)

section \<open>Presence\<close>

text \<open>
  C4, as amended. \<^verbatim>\<open>activeUsers\<close> holds one socket id per user: after a successful
  \<^const>\<open>authenticate\<close> the user's entry is the authenticating socket and all other
  entries are as before, so a second connection of the same user replaces the first; and
  \<^const>\<open>disconnect\<close> of a socket deletes the entry of its user.
\<close>

theorem activeUsers_one_socket_per_user:
  "(verify token = Some u
      \<longrightarrow> activeUsers (fst (authenticate verify st sid token)) u = Some sid
        \<and> (\<forall>u'. u' \<noteq> u \<longrightarrow> activeUsers (fst (authenticate verify st sid token)) u' = activeUsers st u'))
   \<and> (verify tokenA = Some u \<and> verify tokenB = Some u
      \<longrightarrow> activeUsers (fst (authenticate verify (fst (authenticate verify st sidA tokenA)) sidB tokenB)) u
          = Some sidB)
   \<and> (socket_userId st sid = Some u \<and> u \<noteq> [] \<longrightarrow> activeUsers (disconnect st sid) u = None)"
  by (simp add: authenticate_def disconnect_def)

text \<open>User \<open>u1\<close> authenticates on socket \<open>s1\<close>, then on \<open>s2\<close>; or disconnects \<open>s1\<close>.\<close>

theorem activeUsers_one_socket_per_user_witness:
  "activeUsers (fst (authenticate ex_verify ex_server ''s1'' ''token_u1'')) ''u1'' = Some ''s1''
   \<and> activeUsers (fst (authenticate ex_verify ex_server ''s1'' ''token_u1'')) ''u2'' = None
   \<and> activeUsers (fst (authenticate ex_verify
         (fst (authenticate ex_verify ex_server ''s1'' ''token_u1'')) ''s2'' ''token_u1'')) ''u1''
       = Some ''s2''
   \<and> activeUsers (disconnect (fst (authenticate ex_verify ex_server ''s1'' ''token_u1'')) ''s1'') ''u1''
       = None"
proof -
  have v: "ex_verify ''token_u1'' = Some ''u1''" by (simp add: ex_verify_def)
  have su: "socket_userId (fst (authenticate ex_verify ex_server ''s1'' ''token_u1'')) ''s1'' = Some ''u1''
            \<and> ''u1'' \<noteq> []"
    by (simp add: authenticate_def ex_verify_def)
  have e: "activeUsers ex_server ''u2'' = None" by (simp add: ex_server_def)
  from activeUsers_one_socket_per_user
         [where verify = ex_verify and token = "''token_u1''" and u = "''u1''" and st = ex_server
            and sid = "''s1''"] v
  have 1: "activeUsers (fst (authenticate ex_verify ex_server ''s1'' ''token_u1'')) ''u1'' = Some ''s1''"
    and 2: "activeUsers (fst (authenticate ex_verify ex_server ''s1'' ''token_u1'')) ''u2''
              = activeUsers ex_server ''u2''"
    by simp_all
  from activeUsers_one_socket_per_user
         [where verify = ex_verify and tokenA = "''token_u1''" and tokenB = "''token_u1''"
            and u = "''u1''" and st = ex_server and sidA = "''s1''" and sidB = "''s2''"] v
  have 3: "activeUsers (fst (authenticate ex_verify
         (fst (authenticate ex_verify ex_server ''s1'' ''token_u1'')) ''s2'' ''token_u1'')) ''u1''
       = Some ''s2''" by blast
  from activeUsers_one_socket_per_user
         [where st = "fst (authenticate ex_verify ex_server ''s1'' ''token_u1'')"
            and sid = "''s1''" and u = "''u1''"] su
  have 4: "activeUsers (disconnect (fst (authenticate ex_verify ex_server ''s1'' ''token_u1'')) ''s1'') ''u1''
       = None" by blast
  from 1 2 e 3 4 show ?thesis by simp
qed

text \<open>
  C4 as stated fails: with two authenticated sockets of user \<open>u1\<close>, the lookup gives
  only the second; and when the first disconnects, the user has no entry at all although
  the second socket is still connected.
\<close>

theorem two_connections_counterexample:
  "socket_userId (fst (authenticate ex_verify
         (fst (authenticate ex_verify ex_server ''s1'' ''token_u1'')) ''s2'' ''token_u1'')) ''s1''
     = Some ''u1''
   \<and> socket_userId (fst (authenticate ex_verify
         (fst (authenticate ex_verify ex_server ''s1'' ''token_u1'')) ''s2'' ''token_u1'')) ''s2''
     = Some ''u1''
   \<and> activeUsers (fst (authenticate ex_verify
         (fst (authenticate ex_verify ex_server ''s1'' ''token_u1'')) ''s2'' ''token_u1'')) ''u1''
     = Some ''s2''
   \<and> activeUsers (disconnect (fst (authenticate ex_verify
         (fst (authenticate ex_verify ex_server ''s1'' ''token_u1'')) ''s2'' ''token_u1'')) ''s1'') ''u1''
     = None"
  by (simp add: authenticate_def disconnect_def ex_verify_def ex_server_def)

section \<open>Video rooms without authentication\<close>

text \<open>
  C10. A socket with no identity attached, whose \<^verbatim>\<open>authenticate\<close> has failed, still has
  its \<^verbatim>\<open>join_video_session\<close> and \<^verbatim>\<open>video_signal\<close> events processed: it is put into
  the room, and \<^verbatim>\<open>user_joined\<close> and \<^verbatim>\<open>video_signal\<close> go to the other members of the
  room with an undefined sender identity, whether or not the socket joined before it
  signalled.
\<close>

theorem unauthenticated_socket_relays:
  assumes unauth: "socket_userId st sid = None" and bad: "verify token = None"
  shows "authenticate verify st sid token = (st, [(ToSelf sid, auth_error ''Invalid token'')])
         \<and> join_video_session st sid room
             = (st\<lparr>rooms := (rooms st)(room := insert sid (rooms st room))\<rparr>,
                [(ToRoomExcept room sid, user_joined None)])
         \<and> recipients (fst (join_video_session st sid room)) (ToRoomExcept room sid)
             = rooms st room - {sid}
         \<and> video_signal (fst (join_video_session st sid room)) sid room signal
             = (fst (join_video_session st sid room),
                [(ToRoomExcept room sid, video_signal_ev signal None)])
         \<and> video_signal st sid room signal
             = (st, [(ToRoomExcept room sid, video_signal_ev signal None)])"
  using unauth bad
  by (simp add: authenticate_def join_video_session_def video_signal_def)

text \<open>
  Socket \<open>s1\<close> presents a forged token, joins \<open>room_1\<close> and sends an offer; socket
  \<open>s9\<close> receives both events.
\<close>

theorem unauthenticated_socket_relays_witness:
  "socket_userId ex_server_room ''s1'' = None
   \<and> ex_verify ''forged'' = None
   \<and> authenticate ex_verify ex_server_room ''s1'' ''forged''
       = (ex_server_room, [(ToSelf ''s1'', auth_error ''Invalid token'')])
   \<and> snd (join_video_session ex_server_room ''s1'' ''room_1'')
       = [(ToRoomExcept ''room_1'' ''s1'', user_joined None)]
   \<and> recipients (fst (join_video_session ex_server_room ''s1'' ''room_1''))
         (ToRoomExcept ''room_1'' ''s1'') = {''s9''}
   \<and> snd (video_signal (fst (join_video_session ex_server_room ''s1'' ''room_1'')) ''s1''
         ''room_1'' ''offer'')
       = [(ToRoomExcept ''room_1'' ''s1'', video_signal_ev ''offer'' None)]"
proof -
  have u: "socket_userId ex_server_room ''s1'' = None" by (simp add: ex_server_room_def)
  have v: "ex_verify ''forged'' = None" by (simp add: ex_verify_def)
  have r: "rooms ex_server_room ''room_1'' - {''s1''} = {''s9''}"
    by (simp add: ex_server_room_def)
  note th = unauthenticated_socket_relays
         [where st = ex_server_room and sid = "''s1''" and verify = ex_verify
            and token = "''forged''" and room = "''room_1''" and signal = "''offer''", OF u v]
  from th have 1: "authenticate ex_verify ex_server_room ''s1'' ''forged''
       = (ex_server_room, [(ToSelf ''s1'', auth_error ''Invalid token'')])"
    by (rule conjunct1)
  from th have "snd (join_video_session ex_server_room ''s1'' ''room_1'')
       = snd (ex_server_room\<lparr>rooms := (rooms ex_server_room)
                (''room_1'' := insert ''s1'' (rooms ex_server_room ''room_1''))\<rparr>,
              [(ToRoomExcept ''room_1'' ''s1'', user_joined None)])"
    by (simp only: )
  then have 2: "snd (join_video_session ex_server_room ''s1'' ''room_1'')
       = [(ToRoomExcept ''room_1'' ''s1'', user_joined None)]"
    by (simp only: snd_conv)
  from th have "recipients (fst (join_video_session ex_server_room ''s1'' ''room_1''))
         (ToRoomExcept ''room_1'' ''s1'') = rooms ex_server_room ''room_1'' - {''s1''}"
    by (elim conjE)
  with r have 3: "recipients (fst (join_video_session ex_server_room ''s1'' ''room_1''))
         (ToRoomExcept ''room_1'' ''s1'') = {''s9''}"
    by (simp only: )
  from th have "video_signal (fst (join_video_session ex_server_room ''s1'' ''room_1'')) ''s1''
         ''room_1'' ''offer''
       = (fst (join_video_session ex_server_room ''s1'' ''room_1''),
                [(ToRoomExcept ''room_1'' ''s1'', video_signal_ev ''offer'' None)])"
    by (elim conjE)
  then have 4: "snd (video_signal (fst (join_video_session ex_server_room ''s1'' ''room_1'')) ''s1''
         ''room_1'' ''offer'')
       = [(ToRoomExcept ''room_1'' ''s1'', video_signal_ev ''offer'' None)]"
    by (simp only: snd_conv)
  from u v 1 2 3 4 show ?thesis by (intro conjI)
qed

section \<open>Sending and reading messages: basic facts\<close>

lemma checkTherapeuticRelationship_self:
  assumes "castObjectId a = Some a" and "find (\<lambda>u. user_id u = a) (users d) = Some u"
  shows "checkTherapeuticRelationship d a a = Returns (role u = ''admin'')"
  using assms by (auto simp: checkTherapeuticRelationship_def User_findById_def)

lemma Chat_save_new_no_conversationId: "conversationId c = [] \<Longrightarrow> Chat_save_new d c = None"
  by (simp add: Chat_save_new_def chat_valid_def)

text \<open>
  No call of \<^const>\<open>sendMessage\<close> stores a message or answers 201: the document it builds
  has no conversation id when the validators run.
\<close>

lemma sendMessage_never_persists:
  "\<exists>e. sendMessage now d uid urole receiverId_opt message_opt messageType_opt = (Inl e, d)"
proof (cases "falsy receiverId_opt \<or> falsy message_opt")
  case True
  then show ?thesis by (simp add: sendMessage_def)
next
  case False
  then obtain rid msg where r: "receiverId_opt = Some rid" and m: "message_opt = Some msg"
    by (cases receiverId_opt; cases message_opt) (auto simp: falsy_def)
  show ?thesis
    using False r m
    by (simp add: sendMessage_def Chat_save_new_no_conversationId
             split: outcome.splits option.splits)
qed

lemmas chat_eval = sendMessage_def getConversation_def markAsRead_def
  checkTherapeuticRelationship_def User_findById_def Appointment_find_between_def
  Chat_save_new_def chat_valid_def Chat_findPage_def Chat_markRead_def asObjectId_def
  falsy_def Let_def cast_defs

section \<open>Conversations of one identity\<close>

text \<open>
  C7, as amended. Deriving the conversation id of a pair of equal identities does not
  fail: it gives \<open>a_a\<close>. \<^const>\<open>getConversation\<close> of a stored admin for their own id derives
  that id and answers with the page of the conversation \<open>a_a\<close>. A message that a user who
  is not an admin addresses to themselves is refused with 403 by the relationship check,
  not by the derivation.
\<close>

theorem equal_identities_derive:
  "deriveConversationId a a = a @ ''_'' @ a
   \<and> (castObjectId a = Some a \<and> find (\<lambda>u. user_id u = a) (users d) = Some u
       \<and> role u = ''admin''
      \<longrightarrow> getConversation now d a urole a None None
          = (Inr \<lparr>cp_data = rev (Chat_findPage (a @ ''_'' @ a) 1 50 (chats d)),
                  cp_page = 1, cp_limit = 50,
                  cp_hasMore = (length (Chat_findPage (a @ ''_'' @ a) 1 50 (chats d)) = 50)\<rparr>,
             d\<lparr>chats := Chat_markRead now (a @ ''_'' @ a) a (chats d)\<rparr>))
   \<and> (castObjectId a = Some a \<and> find (\<lambda>u. user_id u = a) (users d) = Some u
       \<and> role u \<noteq> ''admin'' \<and> urole \<noteq> ''admin'' \<and> msg \<noteq> [] \<and> length msg \<le> 1000
      \<longrightarrow> sendMessage now d a urole (Some a) (Some msg) mt
          = (Inl (403, ''You can only message your assigned therapist/patients''), d))"
proof (intro conjI impI)
  show "deriveConversationId a a = a @ ''_'' @ a"
    by (simp add: deriveConversationId_cases)
next
  assume h: "castObjectId a = Some a \<and> find (\<lambda>u. user_id u = a) (users d) = Some u
       \<and> role u = ''admin''"
  then have "checkTherapeuticRelationship d a a = Returns True"
    by (simp add: checkTherapeuticRelationship_self)
  then show "getConversation now d a urole a None None
          = (Inr \<lparr>cp_data = rev (Chat_findPage (a @ ''_'' @ a) 1 50 (chats d)),
                  cp_page = 1, cp_limit = 50,
                  cp_hasMore = (length (Chat_findPage (a @ ''_'' @ a) 1 50 (chats d)) = 50)\<rparr>,
             d\<lparr>chats := Chat_markRead now (a @ ''_'' @ a) a (chats d)\<rparr>)"
    by (simp add: getConversation_def Let_def deriveConversationId_cases)
next
  assume h: "castObjectId a = Some a \<and> find (\<lambda>u. user_id u = a) (users d) = Some u
       \<and> role u \<noteq> ''admin'' \<and> urole \<noteq> ''admin'' \<and> msg \<noteq> [] \<and> length msg \<le> 1000"
  then have rel: "checkTherapeuticRelationship d a a = Returns False"
    by (simp add: checkTherapeuticRelationship_self)
  from h have ne: "a \<noteq> []" by (simp add: castObjectId_nonempty)
  from h have rcv: "User_findById d a = Returns (Some u)"
    by (simp add: User_findById_def)
  from h ne rel rcv
  show "sendMessage now d a urole (Some a) (Some msg) mt
          = (Inl (403, ''You can only message your assigned therapist/patients''), d)"
    by (simp add: sendMessage_def falsy_def)
qed

text \<open>
  The admin of the example data asks for the conversation with themselves; the patient
  writes to themselves.
\<close>

theorem equal_identities_derive_witness:
  "getConversation 7000 ex_db id_a1 ''admin'' id_a1 None None
     = (Inr \<lparr>cp_data = [], cp_page = 1, cp_limit = 50, cp_hasMore = False\<rparr>, ex_db)
   \<and> sendMessage 7000 ex_db id_p1 ''patient'' (Some id_p1) (Some ''note to self'') None
     = (Inl (403, ''You can only message your assigned therapist/patients''), ex_db)"
proof -
  have adm: "castObjectId id_a1 = Some id_a1
       \<and> find (\<lambda>u. user_id u = id_a1) (users ex_db) = Some \<lparr>user_id = id_a1, role = ''admin''\<rparr>
       \<and> role \<lparr>user_id = id_a1, role = ''admin''\<rparr> = ''admin''"
    by (simp add: cast_example_ids) (simp add: ex_defs)
  have pat: "castObjectId id_p1 = Some id_p1
       \<and> find (\<lambda>u. user_id u = id_p1) (users ex_db) = Some \<lparr>user_id = id_p1, role = ''patient''\<rparr>
       \<and> role \<lparr>user_id = id_p1, role = ''patient''\<rparr> \<noteq> ''admin'' \<and> ''patient'' \<noteq> ''admin''
       \<and> ''note to self'' \<noteq> [] \<and> length ''note to self'' \<le> 1000"
    by (simp add: cast_example_ids) (simp add: ex_defs)
  have e: "chats ex_db = []" by (simp add: ex_db_def)
  have same: "ex_db\<lparr>chats := []\<rparr> = ex_db" by (simp add: ex_db_def)
  from equal_identities_derive
         [where a = id_a1 and d = ex_db and u = "\<lparr>user_id = id_a1, role = ''admin''\<rparr>"
            and now = 7000 and urole = "''admin''"] adm
  have "getConversation 7000 ex_db id_a1 ''admin'' id_a1 None None
          = (Inr \<lparr>cp_data = rev (Chat_findPage (id_a1 @ ''_'' @ id_a1) 1 50 (chats ex_db)),
                  cp_page = 1, cp_limit = 50,
                  cp_hasMore = (length (Chat_findPage (id_a1 @ ''_'' @ id_a1) 1 50 (chats ex_db)) = 50)\<rparr>,
             ex_db\<lparr>chats := Chat_markRead 7000 (id_a1 @ ''_'' @ id_a1) id_a1 (chats ex_db)\<rparr>)"
    by blast
  then have 1: "getConversation 7000 ex_db id_a1 ''admin'' id_a1 None None
     = (Inr \<lparr>cp_data = [], cp_page = 1, cp_limit = 50, cp_hasMore = False\<rparr>, ex_db)"
    by (simp add: e same Chat_findPage_def Chat_markRead_def)
  from equal_identities_derive
         [where a = id_p1 and msg = "''note to self''" and d = ex_db
            and u = "\<lparr>user_id = id_p1, role = ''patient''\<rparr>" and now = 7000
            and urole = "''patient''" and mt = None] pat
  have 2: "sendMessage 7000 ex_db id_p1 ''patient'' (Some id_p1) (Some ''note to self'') None
          = (Inl (403, ''You can only message your assigned therapist/patients''), ex_db)"
    by blast
  from 1 2 show ?thesis by (intro conjI)
qed

text \<open>
  C7 as stated fails: the id of the pair made of the admin's id twice is derived, and the
  admin's request for that conversation is answered with its (empty) page.
\<close>

theorem self_conversation_counterexample:
  "deriveConversationId id_a1 id_a1 = id_a1 @ ''_'' @ id_a1
   \<and> fst (getConversation 7000 ex_db id_a1 ''admin'' id_a1 None None)
       = Inr \<lparr>cp_data = [], cp_page = 1, cp_limit = 50, cp_hasMore = False\<rparr>"
  by (simp add: deriveConversationId_cases ex_defs chat_eval)

section \<open>A message to an offline receiver\<close>

text \<open>
  C8. The patient and the therapist of the example data have appointments together, no
  message is stored, and the therapist has no entry in \<^verbatim>\<open>activeUsers\<close>. The claim wants
  the patient's message persisted without an error. The code answers 500 and stores
  nothing: \<^const>\<open>sendMessage\<close> builds the document without a conversation id, and the save
  is rejected by the validators before the hook that would derive the id has run. The
  relay emits nothing and raises nothing, as the claim says; the therapist's
  \<^const>\<open>getConversation\<close> then finds no message, and \<^const>\<open>markAsRead\<close> has nothing to mark.
\<close>

theorem offline_message_not_persisted:
  "checkTherapeuticRelationship ex_db id_p1 id_t1 = Returns True
   \<and> activeUsers ex_server id_t1 = None
   \<and> chats ex_db = []
   \<and> sendMessage 1000 ex_db id_p1 ''patient'' (Some id_t1) (Some ''hello'') (Some ''text'')
       = (Inl (500, ''Server error''), ex_db)
   \<and> send_message 1000 ex_server ''s1'' id_t1 ''hello'' (deriveConversationId id_p1 id_t1)
       = (ex_server, [])
   \<and> getConversation 2000 ex_db id_t1 ''therapist'' id_p1 None None
       = (Inr \<lparr>cp_data = [], cp_page = 1, cp_limit = 50, cp_hasMore = False\<rparr>, ex_db)
   \<and> markAsRead 3000 ex_db id_t1 (deriveConversationId id_t1 id_p1)
       = (Inr ''Messages marked as read'', ex_db)"
proof (intro conjI)
  show "checkTherapeuticRelationship ex_db id_p1 id_t1 = Returns True"
    by (simp add: ex_defs chat_eval)
  show "activeUsers ex_server id_t1 = None" by (simp add: ex_server_def)
  show "chats ex_db = []" by (simp add: ex_db_def)
  show "sendMessage 1000 ex_db id_p1 ''patient'' (Some id_t1) (Some ''hello'') (Some ''text'')
       = (Inl (500, ''Server error''), ex_db)"
    by (simp add: ex_defs chat_eval messageType_enum_def)
  show "send_message 1000 ex_server ''s1'' id_t1 ''hello'' (deriveConversationId id_p1 id_t1)
       = (ex_server, [])"
    by (simp add: send_message_def ex_server_def)
  show "getConversation 2000 ex_db id_t1 ''therapist'' id_p1 None None
       = (Inr \<lparr>cp_data = [], cp_page = 1, cp_limit = 50, cp_hasMore = False\<rparr>, ex_db)"
    by (simp add: ex_defs chat_eval)
  show "markAsRead 3000 ex_db id_t1 (deriveConversationId id_t1 id_p1)
       = (Inr ''Messages marked as read'', ex_db)"
    by (simp add: ex_db_def markAsRead_def Chat_markRead_def)
qed

end
